theory Spec2Isabelle
  imports Complex_Main
begin

section \<open>Values, exceptions and the object store\<close>

text \<open>
  The notebook \<^verbatim>\<open>models_training_and_evaluation.ipynb\<close> defines three functions:
  \<^verbatim>\<open>evaluate_model_metrics\<close>, \<^verbatim>\<open>find_best_threshold\<close> and
  \<^verbatim>\<open>evaluate_model_with_threshold_params\<close>. Finite Python floats are modelled by
  reals (rounding is not modelled); the one non-finite float that the metric code can
  produce, \<^verbatim>\<open>nan\<close>, is a value of its own, because every comparison with it is false.
  A metrics dictionary holds floats and, once it has been labelled, strings.
\<close>

datatype pyval = PFloat real | PNaN | PStr string

text \<open>
  An exception is a value. \<open>Raised\<close> stands for any exception that a library call or
  an imported helper raises by itself.
\<close>

datatype error = KeyError string | TypeError | ValueError | Raised string

text \<open>
  Python objects are reached through references. The store maps a reference to the
  object's content: a dictionary, or any other object (a fitted classifier, a feature
  matrix, a label vector), whose content is left abstract. \<open>stdout\<close> is what has been
  printed so far; the one line that the notebook's functions print is kept as its three
  interpolated values.
\<close>

type_synonym ref = nat

datatype 'o obj = Dict "string \<rightharpoonup> pyval" | Opaque 'o

datatype printed = BestThresholdLine string real real

record 'o world =
  store :: "ref \<Rightarrow> 'o obj"
  stdout :: "printed list"

text \<open>
  \<^verbatim>\<open>d[k]\<close>: a missing key raises \<^verbatim>\<open>KeyError\<close>. Subscripting an object that is no
  dictionary is modelled as a \<^verbatim>\<open>TypeError\<close>, for reading and for writing.
\<close>

definition getitem :: "'o world \<Rightarrow> ref \<Rightarrow> string \<Rightarrow> error + pyval" where
  "getitem w r k =
     (case store w r of
        Dict d \<Rightarrow> (case d k of None \<Rightarrow> Inl (KeyError k) | Some v \<Rightarrow> Inr v)
      | Opaque _ \<Rightarrow> Inl TypeError)"

text \<open>\<^verbatim>\<open>d[k] = v\<close> updates the dictionary in place: every alias of it sees the update.\<close>

definition setitem :: "ref \<Rightarrow> string \<Rightarrow> pyval \<Rightarrow> 'o world \<Rightarrow> (error + unit) \<times> 'o world" where
  "setitem r k v w =
     (case store w r of
        Dict d \<Rightarrow> (Inr (), w\<lparr>store := (store w)(r := Dict (d(k \<mapsto> v)))\<rparr>)
      | Opaque _ \<Rightarrow> (Inl TypeError, w))"

definition print :: "printed \<Rightarrow> 'o world \<Rightarrow> 'o world" where
  "print l w = w\<lparr>stdout := stdout w @ [l]\<rparr>"

section \<open>Metric computation\<close>

text \<open>
  \<^verbatim>\<open>evaluate_model_metrics\<close> calls four functions of scikit-learn on two label
  vectors, modelled as lists of Python integers. The library functions are modelled as
  scikit-learn documents and computes them for one-dimensional integer labels with its
  defaults \<^verbatim>\<open>average='binary'\<close> and \<^verbatim>\<open>pos_label=1\<close>.

  Input validation: vectors of different lengths raise \<^verbatim>\<open>ValueError\<close>; for the three
  scores with binary averaging, so do more than two distinct labels (a multiclass
  target) and two distinct labels neither of which is the positive label.
\<close>

definition present_labels :: "int list \<Rightarrow> int list \<Rightarrow> int list" where
  "present_labels y_true y_pred = remdups (y_true @ y_pred)"

definition check_consistent_length :: "int list \<Rightarrow> int list \<Rightarrow> error + unit" where
  "check_consistent_length y_true y_pred =
     (if length y_true \<noteq> length y_pred then Inl ValueError else Inr ())"

definition check_set_wise_labels :: "int list \<Rightarrow> int list \<Rightarrow> error + unit" where
  "check_set_wise_labels y_true y_pred =
     (case check_consistent_length y_true y_pred of
        Inl e \<Rightarrow> Inl e
      | Inr _ \<Rightarrow>
          if length (present_labels y_true y_pred) > 2 then Inl ValueError
          else if 1 \<notin> set (present_labels y_true y_pred)
                  \<and> length (present_labels y_true y_pred) \<ge> 2 then Inl ValueError
          else Inr ())"

text \<open>
  The counts that scikit-learn takes for the positive label: the samples where both
  vectors agree on it, the samples predicted as it, the samples labelled as it.
\<close>

definition tp_sum :: "int list \<Rightarrow> int list \<Rightarrow> nat" where
  "tp_sum y_true y_pred = length (filter (\<lambda>(t, p). t = p \<and> t = 1) (zip y_true y_pred))"

definition pred_sum :: "int list \<Rightarrow> nat" where
  "pred_sum y_pred = length (filter (\<lambda>p. p = 1) y_pred)"

definition true_sum :: "int list \<Rightarrow> nat" where
  "true_sum y_true = length (filter (\<lambda>t. t = 1) y_true)"

text \<open>The guarded division, with \<^verbatim>\<open>zero_division=0\<close>.\<close>

definition prf_divide :: "nat \<Rightarrow> nat \<Rightarrow> real" where
  "prf_divide numerator denominator =
     (if denominator = 0 then 0 else real numerator / real denominator)"

definition precision_score :: "int list \<Rightarrow> int list \<Rightarrow> error + real" where
  "precision_score y_true y_pred =
     (case check_set_wise_labels y_true y_pred of
        Inl e \<Rightarrow> Inl e
      | Inr _ \<Rightarrow> Inr (prf_divide (tp_sum y_true y_pred) (pred_sum y_pred)))"

definition recall_score :: "int list \<Rightarrow> int list \<Rightarrow> error + real" where
  "recall_score y_true y_pred =
     (case check_set_wise_labels y_true y_pred of
        Inl e \<Rightarrow> Inl e
      | Inr _ \<Rightarrow> Inr (prf_divide (tp_sum y_true y_pred) (true_sum y_true)))"

text \<open>
  The F-score with \<open>\<beta> = 1\<close> is computed from the counts, not from the two scores:
  \<open>(1 + \<beta>\<^sup>2) tp / (\<beta>\<^sup>2 true_sum + pred_sum)\<close>.
\<close>

definition f1_score :: "int list \<Rightarrow> int list \<Rightarrow> error + real" where
  "f1_score y_true y_pred =
     (case check_set_wise_labels y_true y_pred of
        Inl e \<Rightarrow> Inl e
      | Inr _ \<Rightarrow> Inr (prf_divide (2 * tp_sum y_true y_pred) (true_sum y_true + pred_sum y_pred)))"

text \<open>
  The accuracy is the mean of the vector \<^verbatim>\<open>y_true == y_pred\<close>. It has no guard: the
  mean of an empty vector is \<^verbatim>\<open>nan\<close>.
\<close>

definition accuracy_score :: "int list \<Rightarrow> int list \<Rightarrow> error + pyval" where
  "accuracy_score y_true y_pred =
     (case check_consistent_length y_true y_pred of
        Inl e \<Rightarrow> Inl e
      | Inr _ \<Rightarrow>
          if y_true = [] then Inr PNaN
          else Inr (PFloat (real (length (filter (\<lambda>(t, p). t = p) (zip y_true y_pred)))
                             / real (length y_true))))"

text \<open>
  \<^verbatim>\<open>
  def evaluate_model_metrics(y, y_pred):
      metrics = {
              "precision": precision_score(y, y_pred, zero_division=0),
              "recall": recall_score(y, y_pred, zero_division=0),
              "f1_score": f1_score(y, y_pred, zero_division=0),
              "accuracy": accuracy_score(y, y_pred)
          }
      return metrics
  \<close>
  The entries are evaluated in this order, and the first exception ends the call.
\<close>

definition evaluate_model_metrics :: "int list \<Rightarrow> int list \<Rightarrow> error + (string \<rightharpoonup> pyval)" where
  "evaluate_model_metrics y y_pred =
     (case precision_score y y_pred of
        Inl e \<Rightarrow> Inl e
      | Inr p \<Rightarrow>
          (case recall_score y y_pred of
             Inl e \<Rightarrow> Inl e
           | Inr r \<Rightarrow>
               (case f1_score y y_pred of
                  Inl e \<Rightarrow> Inl e
                | Inr f \<Rightarrow>
                    (case accuracy_score y y_pred of
                       Inl e \<Rightarrow> Inl e
                     | Inr a \<Rightarrow>
                         Inr [''precision'' \<mapsto> PFloat p, ''recall'' \<mapsto> PFloat r,
                              ''f1_score'' \<mapsto> PFloat f, ''accuracy'' \<mapsto> a]))))"

text \<open>
  The same function with the four library calls as parameters: what it does with their
  results and their exceptions does not depend on what the library computes.
\<close>

definition evaluate_model_metrics_with ::
  "(int list \<Rightarrow> int list \<Rightarrow> error + real) \<Rightarrow> (int list \<Rightarrow> int list \<Rightarrow> error + real)
     \<Rightarrow> (int list \<Rightarrow> int list \<Rightarrow> error + real) \<Rightarrow> (int list \<Rightarrow> int list \<Rightarrow> error + pyval)
     \<Rightarrow> int list \<Rightarrow> int list \<Rightarrow> error + (string \<rightharpoonup> pyval)" where
  "evaluate_model_metrics_with precision recall f1 accuracy y y_pred =
     (case precision y y_pred of
        Inl e \<Rightarrow> Inl e
      | Inr p \<Rightarrow>
          (case recall y y_pred of
             Inl e \<Rightarrow> Inl e
           | Inr r \<Rightarrow>
               (case f1 y y_pred of
                  Inl e \<Rightarrow> Inl e
                | Inr f \<Rightarrow>
                    (case accuracy y y_pred of
                       Inl e \<Rightarrow> Inl e
                     | Inr a \<Rightarrow>
                         Inr [''precision'' \<mapsto> PFloat p, ''recall'' \<mapsto> PFloat r,
                              ''f1_score'' \<mapsto> PFloat f, ''accuracy'' \<mapsto> a]))))"

text \<open>
  The confusion matrix of two vectors over \<open>{0, 1}\<close>, and the four metrics as the
  specification defines them from it.
\<close>

definition TP :: "int list \<Rightarrow> int list \<Rightarrow> nat" where
  "TP y y_pred = length (filter (\<lambda>(t, p). t = 1 \<and> p = 1) (zip y y_pred))"

definition FP :: "int list \<Rightarrow> int list \<Rightarrow> nat" where
  "FP y y_pred = length (filter (\<lambda>(t, p). t = 0 \<and> p = 1) (zip y y_pred))"

definition FN :: "int list \<Rightarrow> int list \<Rightarrow> nat" where
  "FN y y_pred = length (filter (\<lambda>(t, p). t = 1 \<and> p = 0) (zip y y_pred))"

definition TN :: "int list \<Rightarrow> int list \<Rightarrow> nat" where
  "TN y y_pred = length (filter (\<lambda>(t, p). t = 0 \<and> p = 0) (zip y y_pred))"

definition spec_precision :: "int list \<Rightarrow> int list \<Rightarrow> real" where
  "spec_precision y y_pred =
     (if TP y y_pred + FP y y_pred = 0 then 0
      else real (TP y y_pred) / real (TP y y_pred + FP y y_pred))"

definition spec_recall :: "int list \<Rightarrow> int list \<Rightarrow> real" where
  "spec_recall y y_pred =
     (if TP y y_pred + FN y y_pred = 0 then 0
      else real (TP y y_pred) / real (TP y y_pred + FN y y_pred))"

definition spec_f1 :: "int list \<Rightarrow> int list \<Rightarrow> real" where
  "spec_f1 y y_pred =
     (if spec_precision y y_pred + spec_recall y y_pred = 0 then 0
      else 2 * spec_precision y y_pred * spec_recall y y_pred
             / (spec_precision y y_pred + spec_recall y y_pred))"

definition spec_accuracy :: "int list \<Rightarrow> int list \<Rightarrow> real" where
  "spec_accuracy y y_pred =
     real (TP y y_pred + TN y y_pred)
       / real (TP y y_pred + TN y y_pred + FP y y_pred + FN y y_pred)"

text \<open>A returned metric value lies in the closed interval from 0 to 1.\<close>

fun in_unit_interval :: "pyval \<Rightarrow> bool" where
  "in_unit_interval (PFloat v) = (0 \<le> v \<and> v \<le> 1)"
| "in_unit_interval PNaN = False"
| "in_unit_interval (PStr _) = False"

section \<open>The threshold sweep\<close>

text \<open>
  \<^verbatim>\<open>evaluate_model_with_threshold\<close> is imported from \<^verbatim>\<open>src/model_training.py\<close>, which
  is not among the sources. It is a parameter of the two functions that call it: given
  the references of the model, the feature matrix and the label vector, and a threshold,
  it runs on the world and either raises or returns the reference of a metrics
  dictionary.
\<close>

type_synonym 'o helper = "ref \<Rightarrow> ref \<Rightarrow> ref \<Rightarrow> real \<Rightarrow> 'o world \<Rightarrow> (error + ref) \<times> 'o world"

text \<open>The three local variables of \<^verbatim>\<open>find_best_threshold\<close> that the loop updates.\<close>

record sweep =
  best_threshold :: real
  best_metric_value :: real
  metric_values :: "(real \<times> pyval) list"

text \<open>
  The body of the \<^verbatim>\<open>for threshold in thresholds\<close> loop, once per threshold in the order
  of the list:
  \<^verbatim>\<open>
    metrics = evaluate_model_with_threshold(model, X, y, threshold=threshold)
    metric_value = metrics[metric]
    metric_values.append((threshold, metric_value))
    if metric_value > best_metric_value:
        best_metric_value = metric_value
        best_threshold = threshold
  \<close>
  \<^verbatim>\<open>nan > b\<close> is false, and a string compared with a number raises \<^verbatim>\<open>TypeError\<close>.
\<close>

fun threshold_loop ::
  "'o helper \<Rightarrow> ref \<Rightarrow> ref \<Rightarrow> ref \<Rightarrow> string \<Rightarrow> real list \<Rightarrow> sweep \<Rightarrow> 'o world
     \<Rightarrow> (error + sweep) \<times> 'o world" where
  "threshold_loop evaluate_model_with_threshold model X y metric [] s w = (Inr s, w)"
| "threshold_loop evaluate_model_with_threshold model X y metric (threshold # thresholds) s w =
     (case evaluate_model_with_threshold model X y threshold w of
        (Inl e, w1) \<Rightarrow> (Inl e, w1)
      | (Inr metrics, w1) \<Rightarrow>
          (case getitem w1 metrics metric of
             Inl e \<Rightarrow> (Inl e, w1)
           | Inr metric_value \<Rightarrow>
               (let s1 = s\<lparr>metric_values := metric_values s @ [(threshold, metric_value)]\<rparr> in
                case metric_value of
                  PFloat v \<Rightarrow>
                    if v > best_metric_value s1
                    then threshold_loop evaluate_model_with_threshold model X y metric thresholds
                           (s1\<lparr>best_metric_value := v, best_threshold := threshold\<rparr>) w1
                    else threshold_loop evaluate_model_with_threshold model X y metric thresholds s1 w1
                | PNaN \<Rightarrow> threshold_loop evaluate_model_with_threshold model X y metric thresholds s1 w1
                | PStr _ \<Rightarrow> (Inl TypeError, w1))))"

text \<open>
  \<^verbatim>\<open>find_best_threshold(model, X, y, metric, thresholds)\<close>: the loop starts from
  \<^verbatim>\<open>best_threshold = 0.5\<close>, \<^verbatim>\<open>best_metric_value = 0\<close> and an empty list; after the
  loop the summary line is printed and the pair \<^verbatim>\<open>(best_threshold, metric_values)\<close> is
  returned.
\<close>

definition find_best_threshold ::
  "'o helper \<Rightarrow> ref \<Rightarrow> ref \<Rightarrow> ref \<Rightarrow> string \<Rightarrow> real list \<Rightarrow> 'o world
     \<Rightarrow> (error + real \<times> (real \<times> pyval) list) \<times> 'o world" where
  "find_best_threshold evaluate_model_with_threshold model X y metric thresholds w =
     (case threshold_loop evaluate_model_with_threshold model X y metric thresholds
             \<lparr>best_threshold = 0.5, best_metric_value = 0, metric_values = []\<rparr> w of
        (Inl e, w1) \<Rightarrow> (Inl e, w1)
      | (Inr s, w1) \<Rightarrow>
          (Inr (best_threshold s, metric_values s),
           print (BestThresholdLine metric (best_threshold s) (best_metric_value s)) w1))"

text \<open>
  The default grid \<^verbatim>\<open>np.arange(0.0, 1.05, 0.05)\<close>: \<open>\<lceil>(stop - start) / step\<rceil>\<close> values
  \<open>start + i * step\<close>.
\<close>

definition np_arange :: "real \<Rightarrow> real \<Rightarrow> real \<Rightarrow> real list" where
  "np_arange start stop step =
     map (\<lambda>i. start + real i * step) [0 ..< nat \<lceil>(stop - start) / step\<rceil>]"

definition default_thresholds :: "real list" where
  "default_thresholds = np_arange 0.0 1.05 0.05"

section \<open>Evaluation at a given or a searched threshold\<close>

text \<open>
  \<^verbatim>\<open>
  def evaluate_model_with_threshold_params(model_name, model, X, y, training_split="default",
                                           metric="recall", threshold=None):
      if not threshold:
          threshold, _ = find_best_threshold(model, X, y, metric=metric)
      metrics = evaluate_model_with_threshold(model, X, y, threshold=threshold)
      metrics["model_name"] = model_name
      metrics["split"] = training_split
      return metrics
  \<close>
  \<^verbatim>\<open>not threshold\<close> is true for \<^verbatim>\<open>None\<close> and for the float \<^verbatim>\<open>0.0\<close>; in both cases
  the search runs on the default grid and its second result is dropped.
\<close>

definition py_not :: "real option \<Rightarrow> bool" where
  "py_not threshold = (case threshold of None \<Rightarrow> True | Some t \<Rightarrow> t = 0)"

text \<open>The last four lines, run with the threshold that the first two have settled.\<close>

definition evaluate_and_label ::
  "'o helper \<Rightarrow> string \<Rightarrow> ref \<Rightarrow> ref \<Rightarrow> ref \<Rightarrow> string \<Rightarrow> real \<Rightarrow> 'o world
     \<Rightarrow> (error + ref) \<times> 'o world" where
  "evaluate_and_label evaluate_model_with_threshold model_name model X y training_split threshold w =
     (case evaluate_model_with_threshold model X y threshold w of
        (Inl e, w1) \<Rightarrow> (Inl e, w1)
      | (Inr metrics, w1) \<Rightarrow>
          (case setitem metrics ''model_name'' (PStr model_name) w1 of
             (Inl e, w2) \<Rightarrow> (Inl e, w2)
           | (Inr _, w2) \<Rightarrow>
               (case setitem metrics ''split'' (PStr training_split) w2 of
                  (Inl e, w3) \<Rightarrow> (Inl e, w3)
                | (Inr _, w3) \<Rightarrow> (Inr metrics, w3))))"

definition evaluate_model_with_threshold_params ::
  "'o helper \<Rightarrow> string \<Rightarrow> ref \<Rightarrow> ref \<Rightarrow> ref \<Rightarrow> string \<Rightarrow> string \<Rightarrow> real option \<Rightarrow> 'o world
     \<Rightarrow> (error + ref) \<times> 'o world" where
  "evaluate_model_with_threshold_params evaluate_model_with_threshold model_name model X y
       training_split metric threshold w =
     (case (if py_not threshold then None else threshold) of
        None \<Rightarrow>
          (case find_best_threshold evaluate_model_with_threshold model X y metric
                  default_thresholds w of
             (Inl e, w1) \<Rightarrow> (Inl e, w1)
           | (Inr (found, _), w1) \<Rightarrow>
               evaluate_and_label evaluate_model_with_threshold model_name model X y
                 training_split found w1)
      | Some given \<Rightarrow>
          evaluate_and_label evaluate_model_with_threshold model_name model X y
            training_split given w)"

section \<open>A threshold evaluation to run the sweep on\<close>

text \<open>
  The content of the objects that the notebook passes around: an estimator that has not
  been fitted; a fitted probabilistic classifier, which gives each feature row the
  probability of the positive class; a feature matrix, a list of rows; a label vector.
\<close>

datatype arr =
  Estimator | Classifier "real list \<Rightarrow> real" | Features "real list list" | Labels "int list"

text \<open>
  Modelled from the spec: \<^verbatim>\<open>evaluate_model_with_threshold\<close> of
  \<^verbatim>\<open>src/model_training.py\<close> is not among the sources. The specification describes the
  step as evaluating a fitted probabilistic classifier at a decision threshold, "the
  probability cutoff above which a binary classifier's output is labeled positive", and
  the metrics record as precision, recall, F1 and accuracy. This instance labels a row
  positive when its probability is above the threshold, computes the four metrics with
  \<open>evaluate_model_metrics\<close> and returns them in a new dictionary; it reads the three
  objects and writes none of them. The theorems below hold for every helper; this one
  serves to run them.
\<close>

definition spec_evaluate_model_with_threshold :: "arr helper" where
  "spec_evaluate_model_with_threshold model X y threshold w =
     (case (store w model, store w X, store w y) of
        (Opaque (Classifier predict_proba), Opaque (Features rows), Opaque (Labels labels)) \<Rightarrow>
          (case evaluate_model_metrics labels
                  (map (\<lambda>row. if predict_proba row > threshold then 1 else 0) rows) of
             Inl e \<Rightarrow> (Inl e, w)
           | Inr metrics \<Rightarrow>
               (Inr (Suc (max model (max X y))),
                w\<lparr>store := (store w)(Suc (max model (max X y)) := Dict metrics)\<rparr>))
      | _ \<Rightarrow> (Inl TypeError, w))"

text \<open>
  A world with a classifier at reference 0 that reads the probability off the first
  feature, a feature matrix at reference 1 and a label vector at reference 2.
\<close>

definition first_feature :: "real list \<Rightarrow> real" where
  "first_feature row = (case row of [] \<Rightarrow> 0 | p # _ \<Rightarrow> p)"

definition small_world :: "real list list \<Rightarrow> int list \<Rightarrow> arr world" where
  "small_world rows labels =
     \<lparr>store = (\<lambda>r. if r = 0 then Opaque (Classifier first_feature)
                    else if r = 1 then Opaque (Features rows)
                    else Opaque (Labels labels)),
      stdout = []\<rparr>"

text \<open>
  A helper whose library call fails for every threshold above a limit and that behaves
  as the one above otherwise, to run the error paths.
\<close>

definition failing_above :: "real \<Rightarrow> arr helper" where
  "failing_above limit model X y threshold w =
     (if threshold > limit then (Inl (Raised ''predict_proba''), w)
      else spec_evaluate_model_with_threshold model X y threshold w)"

text \<open>
  A helper that raises once a line has been printed: it succeeds throughout a sweep and
  fails in the evaluation that follows the sweep.
\<close>

definition failing_once_printed :: "arr helper" where
  "failing_once_printed model X y threshold w =
     (if stdout w \<noteq> [] then (Inl (Raised ''predict_proba''), w)
      else spec_evaluate_model_with_threshold model X y threshold w)"

text \<open>
  A helper whose dictionary holds a string under \<^verbatim>\<open>recall\<close>, and one that, once a line
  has been printed, hands back the feature matrix instead of a dictionary.
\<close>

definition string_valued :: "arr helper" where
  "string_valued model X y threshold w =
     (Inr (Suc (max model (max X y))),
      w\<lparr>store := (store w)(Suc (max model (max X y)) := Dict [''recall'' \<mapsto> PStr ''n/a''])\<rparr>)"

definition matrix_once_printed :: "arr helper" where
  "matrix_once_printed model X y threshold w =
     (if stdout w \<noteq> [] then (Inr X, w)
      else spec_evaluate_model_with_threshold model X y threshold w)"

text \<open>
  A helper that hands back the feature matrix itself as its result, to show what the
  labelling does to an aliased object.
\<close>

definition returns_its_input :: "'o helper" where
  "returns_its_input model X y threshold w = (Inr X, w)"

section \<open>What the loop computes\<close>

text \<open>
  The choice that the loop makes, read off the recorded pairs alone: starting from a
  pair of best threshold and best value, a later pair replaces it when its value is a
  float strictly above the best value so far.
\<close>

fun pick :: "(real \<times> pyval) list \<Rightarrow> real \<times> real \<Rightarrow> real \<times> real" where
  "pick [] b = b"
| "pick ((t, x) # r) (bt, bv) =
     (case x of
        PFloat v \<Rightarrow> if v > bv then pick r (t, v) else pick r (bt, bv)
      | _ \<Rightarrow> pick r (bt, bv))"


section \<open>The train step\<close>

text \<open>
  The operations of a scikit-learn estimator that the train step uses, on the abstract
  content of the objects: \<^verbatim>\<open>fit\<close> turns an estimator, a feature matrix and a label
  vector into the fitted estimator, \<^verbatim>\<open>predict\<close> gives the labels that a fitted
  estimator predicts for a feature matrix, and \<open>labels_of\<close> reads a label vector.
\<close>

record 'o sklearn =
  fit :: "'o \<Rightarrow> 'o \<Rightarrow> 'o \<Rightarrow> error + 'o"
  predict :: "'o \<Rightarrow> 'o \<Rightarrow> error + int list"
  labels_of :: "'o \<Rightarrow> int list"

text \<open>
  Modelled from the spec: \<^verbatim>\<open>train_model\<close> of \<^verbatim>\<open>src/model_training.py\<close> is not
  among the sources; the notebook only calls it, as
  \<^verbatim>\<open>_, train_metrics, val_metrics = train_model(clf, X_train, y_train, X_val, y_val)\<close>,
  and later uses \<^verbatim>\<open>clf\<close> as a fitted classifier. The specification says that the step
  "fits a classifier on training data, returns predictions and metric summaries for
  training and validation sets". So: the classifier object is fitted in place on the
  training matrix and labels, it predicts both matrices, the metric summary of each set
  is computed as \<open>evaluate_model_metrics\<close> does, and the result has three components:
  the two prediction vectors and the two summaries. An exception ends the call.
\<close>

definition train_model ::
  "'o sklearn \<Rightarrow> ref \<Rightarrow> ref \<Rightarrow> ref \<Rightarrow> ref \<Rightarrow> ref \<Rightarrow> 'o world
     \<Rightarrow> (error + (int list \<times> int list) \<times> (string \<rightharpoonup> pyval) \<times> (string \<rightharpoonup> pyval))
         \<times> 'o world" where
  "train_model lib clf X_train y_train X_val y_val w =
     (case (store w clf, store w X_train, store w y_train, store w X_val, store w y_val) of
        (Opaque c, Opaque xt, Opaque yt, Opaque xv, Opaque yv) \<Rightarrow>
          (case fit lib c xt yt of
             Inl e \<Rightarrow> (Inl e, w)
           | Inr fitted \<Rightarrow>
               (let w1 = w\<lparr>store := (store w)(clf := Opaque fitted)\<rparr> in
                case predict lib fitted xt of
                  Inl e \<Rightarrow> (Inl e, w1)
                | Inr train_pred \<Rightarrow>
                    (case predict lib fitted xv of
                       Inl e \<Rightarrow> (Inl e, w1)
                     | Inr val_pred \<Rightarrow>
                         (case evaluate_model_metrics (labels_of lib yt) train_pred of
                            Inl e \<Rightarrow> (Inl e, w1)
                          | Inr train_metrics \<Rightarrow>
                              (case evaluate_model_metrics (labels_of lib yv) val_pred of
                                 Inl e \<Rightarrow> (Inl e, w1)
                               | Inr val_metrics \<Rightarrow>
                                   (Inr ((train_pred, val_pred), train_metrics, val_metrics),
                                    w1))))))
      | _ \<Rightarrow> (Inl TypeError, w))"

text \<open>
  A small estimator to run the train step: fitting yields the classifier that reads the
  probability off the first feature, and a row is predicted positive when that
  probability is above one half.
\<close>

definition toy_sklearn :: "arr sklearn" where
  "toy_sklearn =
     \<lparr>fit = (\<lambda>c X y. case (c, X, y) of
                (Estimator, Features _, Labels _) \<Rightarrow> Inr (Classifier first_feature)
              | _ \<Rightarrow> Inl TypeError),
      predict = (\<lambda>c X. case (c, X) of
                (Classifier f, Features rows) \<Rightarrow>
                  Inr (map (\<lambda>row. if f row > 1 / 2 then 1 else 0) rows)
              | _ \<Rightarrow> Inl (Raised ''NotFittedError'')),
      labels_of = (\<lambda>y. case y of Labels ls \<Rightarrow> ls | _ \<Rightarrow> [])\<rparr>"

text \<open>
  A world before training: the estimator at reference 0, the training matrix and labels
  at 1 and 2, the validation matrix and labels at 3 and 4.
\<close>

definition split_world :: "real list list \<Rightarrow> int list \<Rightarrow> real list list \<Rightarrow> int list \<Rightarrow> arr world" where
  "split_world X_train y_train X_val y_val =
     \<lparr>store = (\<lambda>r. if r = 0 then Opaque Estimator
                    else if r = 1 then Opaque (Features X_train)
                    else if r = 2 then Opaque (Labels y_train)
                    else if r = 3 then Opaque (Features X_val)
                    else Opaque (Labels y_val)),
      stdout = []\<rparr>"

section \<open>Counting lemmas for the metrics\<close>

lemma binary_labels_pass:
  assumes "length y = length y_pred" "set y \<subseteq> {0, 1}" "set y_pred \<subseteq> {0, 1}"
  shows "check_set_wise_labels y y_pred = Inr ()"
proof -
  let ?L = "present_labels y y_pred"
  have sub: "set ?L \<subseteq> {0, 1}" using assms by (auto simp: present_labels_def)
  have len: "length ?L = card (set ?L)"
    by (simp add: present_labels_def length_remdups_card_conv)
  have "card (set ?L) \<le> card {0, 1 :: int}" using sub by (intro card_mono) auto
  then have le2: "length ?L \<le> 2" using len by simp
  have one: "1 \<in> set ?L" if "length ?L \<ge> 2"
  proof (rule ccontr)
    assume "1 \<notin> set ?L"
    with sub have "set ?L \<subseteq> {0}" by auto
    then have "card (set ?L) \<le> card {0 :: int}" by (intro card_mono) auto
    with len that show False by simp
  qed
  show ?thesis using assms(1) le2 one
    by (auto simp: check_set_wise_labels_def check_consistent_length_def)
qed

lemma tp_sum_TP: "tp_sum y y_pred = TP y y_pred"
proof -
  have "(\<lambda>(t :: int, p :: int). t = p \<and> t = 1) = (\<lambda>(t, p). t = 1 \<and> p = 1)" by auto
  then show ?thesis by (simp add: tp_sum_def TP_def)
qed

lemma pred_sum_TP_FP:
  "length y = length y_pred \<Longrightarrow> set y \<subseteq> {0, 1} \<Longrightarrow> pred_sum y_pred = TP y y_pred + FP y y_pred"
  by (induction y y_pred rule: list_induct2) (auto simp: pred_sum_def TP_def FP_def)

lemma true_sum_TP_FN:
  "length y = length y_pred \<Longrightarrow> set y_pred \<subseteq> {0, 1} \<Longrightarrow> true_sum y = TP y y_pred + FN y y_pred"
  by (induction y y_pred rule: list_induct2) (auto simp: true_sum_def TP_def FN_def)

lemma agree_TP_TN:
  "length y = length y_pred \<Longrightarrow> set y \<subseteq> {0, 1} \<Longrightarrow> set y_pred \<subseteq> {0, 1} \<Longrightarrow>
     length (filter (\<lambda>(t, p). t = p) (zip y y_pred)) = TP y y_pred + TN y y_pred"
  by (induction y y_pred rule: list_induct2) (auto simp: TP_def TN_def)

lemma total_length:
  "length y = length y_pred \<Longrightarrow> set y \<subseteq> {0, 1} \<Longrightarrow> set y_pred \<subseteq> {0, 1} \<Longrightarrow>
     TP y y_pred + TN y y_pred + FP y y_pred + FN y y_pred = length y"
  by (induction y y_pred rule: list_induct2) (auto simp: TP_def TN_def FP_def FN_def)

lemma harmonic_mean:
  fixes x p q :: real
  assumes "0 < x" "0 < p" "0 < q"
  shows "2 * (x / p) * (x / q) / (x / p + x / q) = 2 * x / (q + p)"
proof -
  have sum: "x / p + x / q = x * (q + p) / (p * q)"
    using assms by (simp add: field_simps)
  have prod: "2 * (x / p) * (x / q) = 2 * x * x / (p * q)"
    by simp
  have "2 * x * x / (p * q) / (x * (q + p) / (p * q)) = 2 * x * x / (x * (q + p))"
    using assms by simp
  also have "\<dots> = 2 * x / (q + p)"
    using assms by simp
  finally show ?thesis by (simp only: sum prod)
qed

lemma f1_from_counts:
  fixes a b c :: nat
  shows "prf_divide (2 * a) (a + c + (a + b)) =
         (let P = (if a + b = 0 then 0 else real a / real (a + b));
              R = (if a + c = 0 then 0 else real a / real (a + c))
          in if P + R = 0 then 0 else 2 * P * R / (P + R))"
proof (cases "a = 0")
  case True
  then show ?thesis by (simp add: Let_def prf_divide_def)
next
  case False
  then have pos: "0 < real a" "0 < real (a + b)" "0 < real (a + c)" by simp_all
  let ?P = "real a / real (a + b)" and ?R = "real a / real (a + c)"
  have P: "0 < ?P" and R: "0 < ?R" using pos by simp_all
  then have PR: "?P + ?R \<noteq> 0" by linarith
  have "2 * ?P * ?R / (?P + ?R) = 2 * real a / (real (a + c) + real (a + b))"
    by (rule harmonic_mean[OF pos])
  with False PR show ?thesis by (simp add: Let_def prf_divide_def)
qed

section \<open>Claims about the metric computation\<close>

text \<open>
  C2. For label and prediction vectors over \<open>{0, 1}\<close> of one length,
  \<open>evaluate_model_metrics\<close> returns the precision, recall and F1 of the confusion
  matrix: \<open>TP / (TP + FP)\<close>, \<open>TP / (TP + FN)\<close> and
  \<open>2 * precision * recall / (precision + recall)\<close>, each 0 when its denominator is 0;
  and, for non-empty vectors, where the quotient is defined, the accuracy
  \<open>(TP + TN) / total\<close>.
\<close>

theorem evaluate_model_metrics_confusion_matrix:
  assumes "length y = length y_pred" "set y \<subseteq> {0, 1}" "set y_pred \<subseteq> {0, 1}"
  shows "\<exists>m. evaluate_model_metrics y y_pred = Inr m
           \<and> m ''precision'' = Some (PFloat (spec_precision y y_pred))
           \<and> m ''recall'' = Some (PFloat (spec_recall y y_pred))
           \<and> m ''f1_score'' = Some (PFloat (spec_f1 y y_pred))
           \<and> (y \<noteq> [] \<longrightarrow> m ''accuracy'' = Some (PFloat (spec_accuracy y y_pred)))"
proof -
  note chk = binary_labels_pass[OF assms]
  note ps = pred_sum_TP_FP[OF assms(1,2)]
  note ts = true_sum_TP_FN[OF assms(1,3)]
  have p: "precision_score y y_pred = Inr (spec_precision y y_pred)"
    by (simp add: precision_score_def chk tp_sum_TP ps prf_divide_def spec_precision_def)
  have r: "recall_score y y_pred = Inr (spec_recall y y_pred)"
    by (simp add: recall_score_def chk tp_sum_TP ts prf_divide_def spec_recall_def)
  have f: "f1_score y y_pred = Inr (spec_f1 y y_pred)"
    unfolding f1_score_def chk tp_sum_TP ps ts spec_f1_def spec_precision_def spec_recall_def
    using f1_from_counts[of "TP y y_pred" "FN y y_pred" "FP y y_pred"]
    by (simp add: Let_def)
  have a: "accuracy_score y y_pred = Inr (PFloat (spec_accuracy y y_pred))" if "y \<noteq> []"
    using that assms(1)
    by (simp add: accuracy_score_def check_consistent_length_def spec_accuracy_def
        agree_TP_TN[OF assms] total_length[OF assms])
  have "\<exists>v. accuracy_score y y_pred = Inr v"
    using assms(1) by (simp add: accuracy_score_def check_consistent_length_def)
  then obtain v where v: "accuracy_score y y_pred = Inr v" ..
  show ?thesis
    using a v by (auto simp: evaluate_model_metrics_def p r f)
qed

theorem evaluate_model_metrics_confusion_matrix_witness:
  "length [1, 0, 1, 1 :: int] = length [1, 1, 0, 1 :: int]
   \<and> set [1, 0, 1, 1] \<subseteq> {0, 1 :: int} \<and> set [1, 1, 0, 1] \<subseteq> {0, 1 :: int}
   \<and> [1, 0, 1, 1 :: int] \<noteq> []
   \<and> (\<exists>m. evaluate_model_metrics [1, 0, 1, 1] [1, 1, 0, 1] = Inr m
         \<and> m ''precision'' = Some (PFloat (2 / 3))
         \<and> m ''recall'' = Some (PFloat (2 / 3))
         \<and> m ''f1_score'' = Some (PFloat (2 / 3))
         \<and> m ''accuracy'' = Some (PFloat (1 / 2)))"
  using evaluate_model_metrics_confusion_matrix [of "[1, 0, 1, 1]" "[1, 1, 0, 1]"]
  by (simp add: spec_precision_def spec_recall_def spec_f1_def spec_accuracy_def
      TP_def FP_def FN_def TN_def)

text \<open>
  C10, as stated, fails on the empty pair of vectors: the three guarded scores are 0,
  but the accuracy is the mean of an empty vector, \<^verbatim>\<open>nan\<close>, which lies in no interval.
\<close>

theorem evaluate_model_metrics_empty_counterexample:
  "evaluate_model_metrics [] [] =
     Inr [''precision'' \<mapsto> PFloat 0, ''recall'' \<mapsto> PFloat 0, ''f1_score'' \<mapsto> PFloat 0,
          ''accuracy'' \<mapsto> PNaN]
   \<and> \<not> in_unit_interval PNaN"
  by (simp add: evaluate_model_metrics_def precision_score_def recall_score_def f1_score_def
      accuracy_score_def check_set_wise_labels_def check_consistent_length_def
      present_labels_def tp_sum_def pred_sum_def true_sum_def prf_divide_def)

text \<open>
  C10, amended. For non-empty label and prediction vectors over \<open>{0, 1}\<close> of one
  length, \<open>evaluate_model_metrics\<close> raises nothing, whatever the denominators of
  precision, recall and F1 are, and each of the four values it returns is a float in
  the closed interval from 0 to 1.
\<close>

theorem evaluate_model_metrics_in_unit_interval:
  assumes "length y = length y_pred" "y \<noteq> []" "set y \<subseteq> {0, 1}" "set y_pred \<subseteq> {0, 1}"
  shows "\<exists>m. evaluate_model_metrics y y_pred = Inr m
           \<and> (\<forall>k \<in> {''precision'', ''recall'', ''f1_score'', ''accuracy''}.
                 \<exists>x. m k = Some x \<and> in_unit_interval x)"
proof -
  have eq: "length y = length y_pred" "set y \<subseteq> {0, 1}" "set y_pred \<subseteq> {0, 1}"
    using assms by simp_all
  note chk = binary_labels_pass[OF eq]
  note ps = pred_sum_TP_FP[OF eq(1,2)]
  note ts = true_sum_TP_FN[OF eq(1,3)]
  let ?p = "prf_divide (tp_sum y y_pred) (pred_sum y_pred)"
  let ?r = "prf_divide (tp_sum y y_pred) (true_sum y)"
  let ?f = "prf_divide (2 * tp_sum y y_pred) (true_sum y + pred_sum y_pred)"
  let ?a = "real (length (filter (\<lambda>(t, p). t = p) (zip y y_pred))) / real (length y)"
  have p: "0 \<le> ?p \<and> ?p \<le> 1"
    by (simp add: prf_divide_def tp_sum_TP ps)
  have r: "0 \<le> ?r \<and> ?r \<le> 1"
    by (simp add: prf_divide_def tp_sum_TP ts)
  have f: "0 \<le> ?f \<and> ?f \<le> 1"
    by (simp add: prf_divide_def tp_sum_TP ts ps)
  have "length (filter (\<lambda>(t, p). t = p) (zip y y_pred)) \<le> length (zip y y_pred)"
    by (rule length_filter_le)
  then have "length (filter (\<lambda>(t, p). t = p) (zip y y_pred)) \<le> length y"
    using eq(1) by simp
  then have a: "0 \<le> ?a \<and> ?a \<le> 1"
    using assms(2) by simp
  have "evaluate_model_metrics y y_pred =
          Inr [''precision'' \<mapsto> PFloat ?p, ''recall'' \<mapsto> PFloat ?r,
               ''f1_score'' \<mapsto> PFloat ?f, ''accuracy'' \<mapsto> PFloat ?a]"
    using assms(1,2)
    by (simp add: evaluate_model_metrics_def precision_score_def recall_score_def f1_score_def
        accuracy_score_def chk check_consistent_length_def)
  with p r f a show ?thesis by simp
qed

theorem evaluate_model_metrics_in_unit_interval_witness:
  "length [0, 0, 1 :: int] = length [0, 0, 0 :: int] \<and> [0, 0, 1 :: int] \<noteq> []
   \<and> set [0, 0, 1] \<subseteq> {0, 1 :: int} \<and> set [0, 0, 0] \<subseteq> {0, 1 :: int}
   \<and> (\<exists>m. evaluate_model_metrics [0, 0, 1] [0, 0, 0] = Inr m
         \<and> (\<forall>k \<in> {''precision'', ''recall'', ''f1_score'', ''accuracy''}.
               \<exists>x. m k = Some x \<and> in_unit_interval x))"
  using evaluate_model_metrics_in_unit_interval [of "[0, 0, 1]" "[0, 0, 0]"]
  by simp

section \<open>Lemmas about the loop\<close>

lemma threshold_loop_pick:
  "threshold_loop ev m X y metric ts s w = (Inr s', w') \<Longrightarrow>
     \<exists>new. metric_values s' = metric_values s @ new \<and> map fst new = ts \<and>
           (best_threshold s', best_metric_value s') = pick new (best_threshold s, best_metric_value s)"
proof (induction ts arbitrary: s w)
  case Nil
  then show ?case by simp
next
  case (Cons t ts)
  from Cons.prems obtain r w1 x where
    ev: "ev m X y t w = (Inr r, w1)" and gi: "getitem w1 r metric = Inr x"
    by (auto split: prod.splits sum.splits)
  let ?s1 = "s\<lparr>metric_values := metric_values s @ [(t, x)]\<rparr>"
  show ?case
  proof (cases x)
    case (PFloat v)
    show ?thesis
    proof (cases "v > best_metric_value s")
      case True
      with Cons.prems ev gi PFloat
      have "threshold_loop ev m X y metric ts (?s1\<lparr>best_metric_value := v, best_threshold := t\<rparr>) w1 = (Inr s', w')"
        by simp
      from Cons.IH[OF this] obtain new where
        "metric_values s' = (metric_values s @ [(t, x)]) @ new" "map fst new = ts"
        "(best_threshold s', best_metric_value s') = pick new (t, v)"
        by auto
      with True PFloat show ?thesis
        by (intro exI[of _ "(t, x) # new"]) simp
    next
      case False
      with Cons.prems ev gi PFloat
      have "threshold_loop ev m X y metric ts ?s1 w1 = (Inr s', w')"
        by simp
      from Cons.IH[OF this] obtain new where
        "metric_values s' = (metric_values s @ [(t, x)]) @ new" "map fst new = ts"
        "(best_threshold s', best_metric_value s') = pick new (best_threshold s, best_metric_value s)"
        by auto
      with False PFloat show ?thesis
        by (intro exI[of _ "(t, x) # new"]) simp
    qed
  next
    case PNaN
    with Cons.prems ev gi
    have "threshold_loop ev m X y metric ts ?s1 w1 = (Inr s', w')"
      by simp
    from Cons.IH[OF this] obtain new where
      "metric_values s' = (metric_values s @ [(t, x)]) @ new" "map fst new = ts"
      "(best_threshold s', best_metric_value s') = pick new (best_threshold s, best_metric_value s)"
      by auto
    with PNaN show ?thesis
      by (intro exI[of _ "(t, x) # new"]) simp
  next
    case (PStr z)
    with Cons.prems ev gi show ?thesis by simp
  qed
qed

lemma pick_bound:
  "pick new (bt0, bv0) = (bt, bv) \<Longrightarrow>
     bv0 \<le> bv \<and> (\<forall>t v. (t, PFloat v) \<in> set new \<longrightarrow> v \<le> bv)"
proof (induction new arbitrary: bt0 bv0)
  case Nil
  then show ?case by simp
next
  case (Cons a new)
  obtain t x where a: "a = (t, x)" by (cases a)
  show ?case
  proof (cases x)
    case (PFloat v)
    show ?thesis
    proof (cases "v > bv0")
      case True
      with Cons.prems a PFloat have "pick new (t, v) = (bt, bv)" by simp
      from Cons.IH[OF this] True a PFloat show ?thesis by auto
    next
      case False
      with Cons.prems a PFloat have "pick new (bt0, bv0) = (bt, bv)" by simp
      from Cons.IH[OF this] False a PFloat show ?thesis by auto
    qed
  next
    case PNaN
    with Cons.prems a have "pick new (bt0, bv0) = (bt, bv)" by simp
    from Cons.IH[OF this] a PNaN show ?thesis by auto
  next
    case (PStr z)
    with Cons.prems a have "pick new (bt0, bv0) = (bt, bv)" by simp
    from Cons.IH[OF this] a PStr show ?thesis by auto
  qed
qed

lemma pick_default:
  "\<forall>t v. (t, PFloat v) \<in> set new \<longrightarrow> v \<le> bv0 \<Longrightarrow> pick new (bt0, bv0) = (bt0, bv0)"
proof (induction new)
  case Nil
  then show ?case by simp
next
  case (Cons a new)
  obtain t x where a: "a = (t, x)" by (cases a)
  from Cons.prems have "\<forall>t v. (t, PFloat v) \<in> set new \<longrightarrow> v \<le> bv0" by auto
  from Cons.IH[OF this] Cons.prems a show ?case
    by (cases x) (auto simp: not_less[symmetric])
qed

lemma pick_first:
  "pick new (bt0, bv0) = (bt, bv) \<Longrightarrow> \<exists>t v. (t, PFloat v) \<in> set new \<and> bv0 < v \<Longrightarrow>
     \<exists>i<length new. new ! i = (bt, PFloat bv) \<and> bv0 < bv \<and>
        (\<forall>j<i. \<forall>u. snd (new ! j) = PFloat u \<longrightarrow> u < bv)"
proof (induction new arbitrary: bt0 bv0)
  case Nil
  then show ?case by simp
next
  case (Cons a new)
  obtain t x where a: "a = (t, x)" by (cases a)
  have step: "\<exists>i<length (a # new). (a # new) ! i = (bt, PFloat bv) \<and> bv0 < bv \<and>
        (\<forall>j<i. \<forall>u. snd ((a # new) ! j) = PFloat u \<longrightarrow> u < bv)"
    if p: "pick new (bt0, bv0) = (bt, bv)" and ex: "\<exists>t v. (t, PFloat v) \<in> set new \<and> bv0 < v"
      and hd: "\<forall>u. x = PFloat u \<longrightarrow> u \<le> bv0"
  proof -
    from Cons.IH[OF p ex] obtain i where i: "i < length new" "new ! i = (bt, PFloat bv)" "bv0 < bv"
      "\<forall>j<i. \<forall>u. snd (new ! j) = PFloat u \<longrightarrow> u < bv" by blast
    have "\<forall>j<Suc i. \<forall>u. snd ((a # new) ! j) = PFloat u \<longrightarrow> u < bv"
    proof (intro allI impI)
      fix j u assume j: "j < Suc i" and u: "snd ((a # new) ! j) = PFloat u"
      show "u < bv"
      proof (cases j)
        case 0
        with u a hd i(3) show ?thesis by auto
      next
        case (Suc k)
        with j u i(4) show ?thesis by auto
      qed
    qed
    with i show ?thesis by (intro exI[of _ "Suc i"]) simp
  qed
  show ?case
  proof (cases x)
    case (PFloat v)
    show ?thesis
    proof (cases "v > bv0")
      case True
      with Cons.prems a PFloat have p: "pick new (t, v) = (bt, bv)" by simp
      show ?thesis
      proof (cases "\<exists>t' v'. (t', PFloat v') \<in> set new \<and> v < v'")
        case ex: True
        from Cons.IH[OF p ex] obtain i where i: "i < length new" "new ! i = (bt, PFloat bv)" "v < bv"
          "\<forall>j<i. \<forall>u. snd (new ! j) = PFloat u \<longrightarrow> u < bv" by blast
        have "\<forall>j<Suc i. \<forall>u. snd ((a # new) ! j) = PFloat u \<longrightarrow> u < bv"
        proof (intro allI impI)
          fix j u assume j: "j < Suc i" and u: "snd ((a # new) ! j) = PFloat u"
          show "u < bv"
          proof (cases j)
            case 0
            with u a PFloat i(3) show ?thesis by auto
          next
            case (Suc k)
            with j u i(4) show ?thesis by auto
          qed
        qed
        with i True show ?thesis by (intro exI[of _ "Suc i"]) simp
      next
        case False
        then have "\<forall>t' v'. (t', PFloat v') \<in> set new \<longrightarrow> v' \<le> v" by (auto simp: not_less)
        from pick_default[OF this] p have "bt = t" "bv = v" by auto
        with True a PFloat show ?thesis by (intro exI[of _ 0]) simp
      qed
    next
      case False
      with Cons.prems(1) a PFloat have p: "pick new (bt0, bv0) = (bt, bv)" by simp
      from Cons.prems(2) False a PFloat have ex: "\<exists>t v. (t, PFloat v) \<in> set new \<and> bv0 < v" by auto
      from False PFloat have "\<forall>u. x = PFloat u \<longrightarrow> u \<le> bv0" by auto
      from step[OF p ex this] show ?thesis .
    qed
  next
    case PNaN
    with Cons.prems(1) a have p: "pick new (bt0, bv0) = (bt, bv)" by simp
    from Cons.prems(2) PNaN a have ex: "\<exists>t v. (t, PFloat v) \<in> set new \<and> bv0 < v" by auto
    from PNaN have "\<forall>u. x = PFloat u \<longrightarrow> u \<le> bv0" by auto
    from step[OF p ex this] show ?thesis .
  next
    case (PStr z)
    with Cons.prems(1) a have p: "pick new (bt0, bv0) = (bt, bv)" by simp
    from Cons.prems(2) PStr a have ex: "\<exists>t v. (t, PFloat v) \<in> set new \<and> bv0 < v" by auto
    from PStr have "\<forall>u. x = PFloat u \<longrightarrow> u \<le> bv0" by auto
    from step[OF p ex this] show ?thesis .
  qed
qed

lemma threshold_loop_values:
  "threshold_loop ev m X y metric ts s w = (Inr s', w') \<Longrightarrow>
     \<forall>(t, x) \<in> set (metric_values s).
        \<exists>w0 r w1. ev m X y t w0 = (Inr r, w1) \<and> getitem w1 r metric = Inr x \<Longrightarrow>
     \<forall>(t, x) \<in> set (metric_values s').
        \<exists>w0 r w1. ev m X y t w0 = (Inr r, w1) \<and> getitem w1 r metric = Inr x"
proof (induction ts arbitrary: s w)
  case Nil
  then show ?case by simp
next
  case (Cons t ts)
  from Cons.prems(1) obtain r w1 x where
    ev: "ev m X y t w = (Inr r, w1)" and gi: "getitem w1 r metric = Inr x"
    by (auto split: prod.splits sum.splits)
  let ?s1 = "s\<lparr>metric_values := metric_values s @ [(t, x)]\<rparr>"
  have inv: "\<forall>(t, x) \<in> set (metric_values (s2 :: sweep)).
        \<exists>w0 r w1. ev m X y t w0 = (Inr r, w1) \<and> getitem w1 r metric = Inr x"
    if "metric_values s2 = metric_values ?s1" for s2
    using that Cons.prems(2) ev gi by auto
  from Cons.prems(1) ev gi consider
      v where "x = PFloat v"
        "threshold_loop ev m X y metric ts (?s1\<lparr>best_metric_value := v, best_threshold := t\<rparr>) w1 = (Inr s', w')"
    | "threshold_loop ev m X y metric ts ?s1 w1 = (Inr s', w')"
    by (cases x) (auto simp: Let_def split: if_splits)
  then show ?case
  proof cases
    case 1
    show ?thesis by (rule Cons.IH[OF 1(2)]) (rule inv, simp)
  next
    case 2
    show ?thesis by (rule Cons.IH[OF 2]) (rule inv, simp)
  qed
qed

lemma find_best_threshold_pick:
  assumes "find_best_threshold ev model X y metric ts w = (Inr (bt, mvs), w')"
  shows "map fst mvs = ts \<and> (\<exists>bv. pick mvs (1 / 2, 0) = (bt, bv))"
proof -
  from assms obtain s w1 where
    loop: "threshold_loop ev model X y metric ts
             \<lparr>best_threshold = 0.5, best_metric_value = 0, metric_values = []\<rparr> w = (Inr s, w1)"
    and bt: "bt = best_threshold s" and mvs: "mvs = metric_values s"
    by (auto simp: find_best_threshold_def split: prod.splits sum.splits)
  from threshold_loop_pick[OF loop] obtain new where
    new: "metric_values s = new" "map fst new = ts"
    "(best_threshold s, best_metric_value s) = pick new (1 / 2, 0)"
    by auto
  from new(3) have "pick new (1 / 2, 0) = (best_threshold s, best_metric_value s)"
    by (rule sym)
  with new(1,2) bt mvs show ?thesis by auto
qed

lemma find_best_threshold_values:
  assumes "find_best_threshold ev model X y metric ts w = (Inr (bt, mvs), w')"
  shows "\<forall>(t, x) \<in> set mvs.
           \<exists>w0 r w1. ev model X y t w0 = (Inr r, w1) \<and> getitem w1 r metric = Inr x"
proof -
  from assms obtain s w1 where
    loop: "threshold_loop ev model X y metric ts
             \<lparr>best_threshold = 0.5, best_metric_value = 0, metric_values = []\<rparr> w = (Inr s, w1)"
    and mvs: "mvs = metric_values s"
    by (auto simp: find_best_threshold_def split: prod.splits sum.splits)
  from threshold_loop_values[OF loop] mvs show ?thesis by simp
qed

lemma threshold_loop_returns:
  assumes "\<forall>t \<in> set ts. \<forall>w. \<exists>r w1 x. ev m X y t w = (Inr r, w1)
              \<and> getitem w1 r metric = Inr x \<and> (\<forall>z. x \<noteq> PStr z)"
  shows "\<exists>s' w'. threshold_loop ev m X y metric ts s w = (Inr s', w')"
  using assms
proof (induction ts arbitrary: s w)
  case Nil
  then show ?case by simp
next
  case (Cons t ts)
  from Cons.prems obtain r w1 x where
    ev: "ev m X y t w = (Inr r, w1)" and gi: "getitem w1 r metric = Inr x"
    and ns: "\<forall>z. x \<noteq> PStr z"
    by (meson list.set_intros(1))
  from Cons.prems have rest: "\<forall>t \<in> set ts. \<forall>w. \<exists>r w1 x. ev m X y t w = (Inr r, w1)
              \<and> getitem w1 r metric = Inr x \<and> (\<forall>z. x \<noteq> PStr z)"
    by simp
  from ns ev gi Cons.IH[OF rest] show ?case
    by (cases x) (simp_all add: Let_def)
qed

lemma find_best_threshold_returns:
  assumes "\<forall>t \<in> set ts. \<forall>w. \<exists>r w1 x. ev model X y t w = (Inr r, w1)
              \<and> getitem w1 r metric = Inr x \<and> (\<forall>z. x \<noteq> PStr z)"
  shows "\<exists>bt mvs w'. find_best_threshold ev model X y metric ts w = (Inr (bt, mvs), w')"
proof -
  from threshold_loop_returns[where ev = ev and m = model and X = X and y = y, OF assms]
  obtain s' w' where
    "threshold_loop ev model X y metric ts
       \<lparr>best_threshold = 0.5, best_metric_value = 0, metric_values = []\<rparr> w = (Inr s', w')"
    by blast
  then show ?thesis by (simp add: find_best_threshold_def)
qed

lemma threshold_loop_append:
  "threshold_loop ev m X y metric (ts1 @ ts2) s w =
     (case threshold_loop ev m X y metric ts1 s w of
        (Inl e, w1) \<Rightarrow> (Inl e, w1)
      | (Inr s1, w1) \<Rightarrow> threshold_loop ev m X y metric ts2 s1 w1)"
proof (induction ts1 arbitrary: s w)
  case Nil
  then show ?case by simp
next
  case (Cons t ts1)
  show ?case
  proof (cases "ev m X y t w")
    case (Pair res w1)
    show ?thesis
    proof (cases res)
      case (Inl e)
      with Pair show ?thesis by simp
    next
      case (Inr r)
      show ?thesis
      proof (cases "getitem w1 r metric")
        case (Inl e)
        with Pair Inr show ?thesis by simp
      next
        case gi: (Inr x)
        with Pair Inr Cons.IH show ?thesis
          by (cases x) (simp_all add: Let_def)
      qed
    qed
  qed
qed





section \<open>Claims about the threshold sweep\<close>

lemmas metric_defs =
  evaluate_model_metrics_def precision_score_def recall_score_def f1_score_def
  accuracy_score_def check_set_wise_labels_def check_consistent_length_def
  present_labels_def tp_sum_def pred_sum_def true_sum_def prf_divide_def

lemmas sweep_defs =
  find_best_threshold_def getitem_def setitem_def print_def
  spec_evaluate_model_with_threshold_def small_world_def first_feature_def

text \<open>
  C1, as stated, fails when no threshold reaches a positive metric value: on two rows
  with probabilities 0.2 and 0.1 and the single threshold 0.3 no row is labelled
  positive, the recall is 0, and the sweep returns its initial 0.5, which is not among
  the supplied thresholds.
\<close>

theorem find_best_threshold_outside_counterexample:
  "fst (find_best_threshold spec_evaluate_model_with_threshold 0 1 2 ''recall'' [3 / 10]
          (small_world [[1 / 5], [1 / 10]] [1, 0]))
     = Inr (1 / 2, [(3 / 10, PFloat 0)])
   \<and> (1 / 2 :: real) \<notin> set [3 / 10]"
  by (simp add: metric_defs sweep_defs)

text \<open>
  C1, amended. When \<open>find_best_threshold\<close> returns and at least one supplied threshold
  has a metric value strictly greater than 0, its second component records one value
  per supplied threshold, in order, each the value that the evaluation returned for that
  threshold, and its first component is a supplied threshold whose recorded value is
  the maximum of the recorded float values.
\<close>

theorem find_best_threshold_maximal:
  assumes "fst (find_best_threshold ev model X y metric thresholds w) = Inr (bt, mvs)"
    and "\<exists>t v. (t, PFloat v) \<in> set mvs \<and> 0 < v"
  shows "map fst mvs = thresholds
       \<and> (\<forall>(t, x) \<in> set mvs.
             \<exists>w0 r w1. ev model X y t w0 = (Inr r, w1) \<and> getitem w1 r metric = Inr x)
       \<and> bt \<in> set thresholds
       \<and> (\<exists>v. (bt, PFloat v) \<in> set mvs
              \<and> (\<forall>t' v'. (t', PFloat v') \<in> set mvs \<longrightarrow> v' \<le> v))"
proof -
  obtain w' where res: "find_best_threshold ev model X y metric thresholds w = (Inr (bt, mvs), w')"
    using assms(1) by (cases "find_best_threshold ev model X y metric thresholds w") simp
  from find_best_threshold_pick[OF res] obtain bv where
    fsts: "map fst mvs = thresholds" and pk: "pick mvs (1 / 2, 0) = (bt, bv)"
    by blast
  from pick_first[OF pk assms(2)] obtain i where
    i: "i < length mvs" "mvs ! i = (bt, PFloat bv)"
    by blast
  then have mem: "(bt, PFloat bv) \<in> set mvs"
    by (metis nth_mem)
  then have "bt \<in> fst ` set mvs" by force
  then have bt: "bt \<in> set thresholds" using fsts by (metis set_map)
  from pick_bound[OF pk] have "\<forall>t' v'. (t', PFloat v') \<in> set mvs \<longrightarrow> v' \<le> bv" by blast
  with mem fsts bt find_best_threshold_values[OF res] show ?thesis by blast
qed

theorem find_best_threshold_maximal_witness:
  "fst (find_best_threshold spec_evaluate_model_with_threshold 0 1 2 ''recall''
          [1 / 2, 3 / 10, 7 / 10] (small_world [[4 / 5], [3 / 5], [2 / 5], [1 / 5]] [1, 0, 1, 0]))
     = Inr (3 / 10, [(1 / 2 :: real, PFloat (1 / 2)), (3 / 10, PFloat 1), (7 / 10, PFloat (1 / 2))])
   \<and> (\<exists>t v. (t, PFloat v)
           \<in> set [(1 / 2 :: real, PFloat (1 / 2)), (3 / 10, PFloat 1), (7 / 10, PFloat (1 / 2))] \<and> 0 < v)
   \<and> (3 / 10 :: real) \<in> set [1 / 2, 3 / 10, 7 / 10]
   \<and> (\<exists>v. (3 / 10 :: real, PFloat v)
           \<in> set [(1 / 2 :: real, PFloat (1 / 2)), (3 / 10, PFloat 1), (7 / 10, PFloat (1 / 2))]
          \<and> (\<forall>t' v'. (t', PFloat v')
                 \<in> set [(1 / 2 :: real, PFloat (1 / 2)), (3 / 10, PFloat 1), (7 / 10, PFloat (1 / 2))]
               \<longrightarrow> v' \<le> v))"
proof -
  let ?mvs = "[(1 / 2 :: real, PFloat (1 / 2)), (3 / 10, PFloat 1), (7 / 10, PFloat (1 / 2))]"
  have run: "fst (find_best_threshold spec_evaluate_model_with_threshold 0 1 2 ''recall''
          [1 / 2, 3 / 10, 7 / 10] (small_world [[4 / 5], [3 / 5], [2 / 5], [1 / 5]] [1, 0, 1, 0]))
     = Inr (3 / 10, ?mvs)"
    by (simp add: metric_defs sweep_defs)
  have pos: "\<exists>t v. (t, PFloat v) \<in> set ?mvs \<and> 0 < v"
    by (intro exI[of _ "3 / 10"] exI[of _ 1]) simp
  from find_best_threshold_maximal[OF run pos] run pos show ?thesis by blast
qed

text \<open>
  C8. When \<open>find_best_threshold\<close> returns and no recorded metric value is strictly
  greater than 0, its first component is the initial 0.5, whatever thresholds were
  supplied. When some recorded value is positive, the first component is the threshold
  at the earliest position of the supplied list whose value is the maximum: no value
  is greater, and every value before that position is strictly smaller.
\<close>

theorem find_best_threshold_default_and_ties:
  assumes "fst (find_best_threshold ev model X y metric thresholds w) = Inr (bt, mvs)"
  shows "((\<forall>t v. (t, PFloat v) \<in> set mvs \<longrightarrow> v \<le> 0) \<longrightarrow> bt = 0.5)
       \<and> ((\<exists>t v. (t, PFloat v) \<in> set mvs \<and> 0 < v) \<longrightarrow>
            (\<exists>i < length thresholds. \<exists>v.
                thresholds ! i = bt \<and> mvs ! i = (bt, PFloat v) \<and> 0 < v
              \<and> (\<forall>j < length thresholds. \<forall>u. snd (mvs ! j) = PFloat u \<longrightarrow> u \<le> v)
              \<and> (\<forall>j < i. \<forall>u. snd (mvs ! j) = PFloat u \<longrightarrow> u < v)))"
proof -
  obtain w' where res: "find_best_threshold ev model X y metric thresholds w = (Inr (bt, mvs), w')"
    using assms(1) by (cases "find_best_threshold ev model X y metric thresholds w") simp
  from find_best_threshold_pick[OF res] obtain bv where
    fsts: "map fst mvs = thresholds" and pk: "pick mvs (1 / 2, 0) = (bt, bv)"
    by blast
  have len: "length thresholds = length mvs" using fsts by (metis length_map)
  have dflt: "bt = 0.5" if "\<forall>t v. (t, PFloat v) \<in> set mvs \<longrightarrow> v \<le> 0"
    using pick_default[OF that, of "1 / 2"] pk by simp
  have first: "\<exists>i < length thresholds. \<exists>v.
                thresholds ! i = bt \<and> mvs ! i = (bt, PFloat v) \<and> 0 < v
              \<and> (\<forall>j < length thresholds. \<forall>u. snd (mvs ! j) = PFloat u \<longrightarrow> u \<le> v)
              \<and> (\<forall>j < i. \<forall>u. snd (mvs ! j) = PFloat u \<longrightarrow> u < v)"
    if ex: "\<exists>t v. (t, PFloat v) \<in> set mvs \<and> 0 < v"
  proof -
    from pick_first[OF pk ex] obtain i where
      i: "i < length mvs" "mvs ! i = (bt, PFloat bv)" "0 < bv"
      "\<forall>j<i. \<forall>u. snd (mvs ! j) = PFloat u \<longrightarrow> u < bv"
      by blast
    have "thresholds ! i = fst (mvs ! i)" using fsts i(1) by (metis nth_map)
    then have ti: "thresholds ! i = bt" using i(2) by simp
    have bound: "\<forall>j < length thresholds. \<forall>u. snd (mvs ! j) = PFloat u \<longrightarrow> u \<le> bv"
    proof (intro allI impI)
      fix j u assume j: "j < length thresholds" and u: "snd (mvs ! j) = PFloat u"
      from j len have "mvs ! j \<in> set mvs" by simp
      then have "(fst (mvs ! j), PFloat u) \<in> set mvs" using u by (metis prod.collapse)
      with pick_bound[OF pk] show "u \<le> bv" by blast
    qed
    from i ti bound len show ?thesis by auto
  qed
  from dflt first show ?thesis by blast
qed

theorem find_best_threshold_default_and_ties_witness:
  "fst (find_best_threshold spec_evaluate_model_with_threshold 0 1 2 ''recall''
          [9 / 10, 19 / 20] (small_world [[4 / 5], [3 / 5], [2 / 5], [1 / 5]] [1, 0, 1, 0]))
     = Inr (1 / 2, [(9 / 10 :: real, PFloat 0), (19 / 20, PFloat 0)])
   \<and> \<not> (\<exists>t v. (t, PFloat v) \<in> set [(9 / 10 :: real, PFloat 0), (19 / 20, PFloat 0)] \<and> 0 < v)
   \<and> (1 / 2 :: real) = 0.5
   \<and> fst (find_best_threshold spec_evaluate_model_with_threshold 0 1 2 ''f1_score''
          [1 / 10, 1 / 2, 7 / 10] (small_world [[4 / 5], [3 / 5], [2 / 5], [1 / 5]] [1, 0, 1, 0]))
     = Inr (1 / 10, [(1 / 10 :: real, PFloat (2 / 3)), (1 / 2, PFloat (1 / 2)), (7 / 10, PFloat (2 / 3))])
   \<and> (\<exists>t v. (t, PFloat v)
          \<in> set [(1 / 10 :: real, PFloat (2 / 3)), (1 / 2, PFloat (1 / 2)), (7 / 10, PFloat (2 / 3))]
        \<and> 0 < v)
   \<and> (\<exists>i < length [1 / 10 :: real, 1 / 2, 7 / 10]. \<exists>v.
          [1 / 10 :: real, 1 / 2, 7 / 10] ! i = 1 / 10
        \<and> [(1 / 10 :: real, PFloat (2 / 3)), (1 / 2, PFloat (1 / 2)), (7 / 10, PFloat (2 / 3))] ! i
            = (1 / 10 :: real, PFloat v)
        \<and> 0 < v
        \<and> (\<forall>j < length [1 / 10 :: real, 1 / 2, 7 / 10]. \<forall>u.
              snd ([(1 / 10 :: real, PFloat (2 / 3)), (1 / 2, PFloat (1 / 2)),
                    (7 / 10, PFloat (2 / 3))] ! j) = PFloat u \<longrightarrow> u \<le> v)
        \<and> (\<forall>j < i. \<forall>u.
              snd ([(1 / 10 :: real, PFloat (2 / 3)), (1 / 2, PFloat (1 / 2)),
                    (7 / 10, PFloat (2 / 3))] ! j) = PFloat u \<longrightarrow> u < v))"
proof -
  let ?w = "small_world [[4 / 5], [3 / 5], [2 / 5], [1 / 5]] [1, 0, 1, 0]"
  let ?zero = "[(9 / 10 :: real, PFloat 0), (19 / 20, PFloat 0)]"
  let ?tie = "[(1 / 10 :: real, PFloat (2 / 3)), (1 / 2, PFloat (1 / 2)), (7 / 10, PFloat (2 / 3))]"
  have run0: "fst (find_best_threshold spec_evaluate_model_with_threshold 0 1 2 ''recall''
          [9 / 10, 19 / 20] ?w) = Inr (1 / 2, ?zero)"
    by (simp add: metric_defs sweep_defs)
  have none: "\<forall>t v. (t, PFloat v) \<in> set ?zero \<longrightarrow> v \<le> 0"
    by simp
  have run1: "fst (find_best_threshold spec_evaluate_model_with_threshold 0 1 2 ''f1_score''
          [1 / 10, 1 / 2, 7 / 10] ?w) = Inr (1 / 10, ?tie)"
    by (simp add: metric_defs sweep_defs)
  have some: "\<exists>t v. (t, PFloat v) \<in> set ?tie \<and> 0 < v"
    by (intro exI[of _ "1 / 10"] exI[of _ "2 / 3"]) simp
  from find_best_threshold_default_and_ties[OF run0] none
  have c0: "(1 / 2 :: real) = 0.5" by blast
  from find_best_threshold_default_and_ties[OF run1] some
  have c1: "\<exists>i < length [1 / 10 :: real, 1 / 2, 7 / 10]. \<exists>v.
          [1 / 10 :: real, 1 / 2, 7 / 10] ! i = 1 / 10
        \<and> ?tie ! i = (1 / 10 :: real, PFloat v)
        \<and> 0 < v
        \<and> (\<forall>j < length [1 / 10 :: real, 1 / 2, 7 / 10]. \<forall>u.
              snd (?tie ! j) = PFloat u \<longrightarrow> u \<le> v)
        \<and> (\<forall>j < i. \<forall>u. snd (?tie ! j) = PFloat u \<longrightarrow> u < v)"
    by blast
  have none': "\<not> (\<exists>t v. (t, PFloat v) \<in> set ?zero \<and> 0 < v)"
    by auto
  from run0 none' c0 run1 some c1 show ?thesis by blast
qed

lemma default_thresholds_eq:
  "default_thresholds =
     [0, 1 / 20, 1 / 10, 3 / 20, 1 / 5, 1 / 4, 3 / 10, 7 / 20, 2 / 5, 9 / 20, 1 / 2,
      11 / 20, 3 / 5, 13 / 20, 7 / 10, 3 / 4, 4 / 5, 17 / 20, 9 / 10, 19 / 20, 1]"
proof -
  have "\<lceil>(1.05 - 0.0) / (0.05 :: real)\<rceil> = 21" by simp
  then have "default_thresholds = map (\<lambda>i. real i * 0.05) [0 ..< 21]"
    by (simp add: default_thresholds_def np_arange_def)
  also have "[0 ..< 21] = [0, 1, 2, 3, 4, 5, 6, 7, 8, 9, 10, 11, 12, 13, 14, 15, 16, 17, 18, 19, 20 :: nat]"
    by (simp add: upt_rec)
  finally show ?thesis by simp
qed

lemma evaluate_and_label_result:
  assumes "ev model X y t w = (Inr d, w1)" "store w1 d = Dict m"
  shows "evaluate_and_label ev name model X y split t w =
           (Inr d, w1\<lparr>store := (store w1)
                      (d := Dict (m(''model_name'' \<mapsto> PStr name, ''split'' \<mapsto> PStr split)))\<rparr>)"
  using assms by (simp add: evaluate_and_label_def setitem_def)

text \<open>
  C9. \<open>evaluate_model_with_threshold_params\<close> called with the threshold 0.0 does what
  it does when called with no threshold: it runs \<open>find_best_threshold\<close> on the default
  grid and evaluates at the threshold found there. A threshold other than 0 is used as
  given: the model is evaluated once, at that threshold, and no search runs.
\<close>

theorem zero_threshold_runs_search:
  "evaluate_model_with_threshold_params ev name model X y split metric (Some 0) w
     = evaluate_model_with_threshold_params ev name model X y split metric None w
   \<and> (find_best_threshold ev model X y metric default_thresholds w = (Inr (found, mvs), w1)
        \<and> ev model X y found w1 = (Inr d, w2) \<and> store w2 d = Dict m \<longrightarrow>
      evaluate_model_with_threshold_params ev name model X y split metric None w
        = (Inr d, w2\<lparr>store := (store w2)
                     (d := Dict (m(''model_name'' \<mapsto> PStr name, ''split'' \<mapsto> PStr split)))\<rparr>))
   \<and> (t \<noteq> 0 \<and> ev model X y t w = (Inr d, w2) \<and> store w2 d = Dict m \<longrightarrow>
      evaluate_model_with_threshold_params ev name model X y split metric (Some t) w
        = (Inr d, w2\<lparr>store := (store w2)
                     (d := Dict (m(''model_name'' \<mapsto> PStr name, ''split'' \<mapsto> PStr split)))\<rparr>))"
proof (intro conjI impI)
  show "evaluate_model_with_threshold_params ev name model X y split metric (Some 0) w
     = evaluate_model_with_threshold_params ev name model X y split metric None w"
    by (simp add: evaluate_model_with_threshold_params_def py_not_def)
next
  assume "find_best_threshold ev model X y metric default_thresholds w = (Inr (found, mvs), w1)
        \<and> ev model X y found w1 = (Inr d, w2) \<and> store w2 d = Dict m"
  then show "evaluate_model_with_threshold_params ev name model X y split metric None w
        = (Inr d, w2\<lparr>store := (store w2)
                     (d := Dict (m(''model_name'' \<mapsto> PStr name, ''split'' \<mapsto> PStr split)))\<rparr>)"
    by (simp add: evaluate_model_with_threshold_params_def py_not_def evaluate_and_label_result)
next
  assume "t \<noteq> 0 \<and> ev model X y t w = (Inr d, w2) \<and> store w2 d = Dict m"
  then show "evaluate_model_with_threshold_params ev name model X y split metric (Some t) w
        = (Inr d, w2\<lparr>store := (store w2)
                     (d := Dict (m(''model_name'' \<mapsto> PStr name, ''split'' \<mapsto> PStr split)))\<rparr>)"
    by (simp add: evaluate_model_with_threshold_params_def py_not_def evaluate_and_label_result)
qed

theorem zero_threshold_runs_search_witness:
  "(1 / 2 :: real) \<noteq> 0
   \<and> fst (evaluate_model_with_threshold_params spec_evaluate_model_with_threshold ''tree'' 0 1 2
            ''test'' ''recall'' (Some (1 / 2)) (small_world [[4 / 5], [1 / 5]] [1, 0])) = Inr 3
   \<and> getitem (snd (evaluate_model_with_threshold_params spec_evaluate_model_with_threshold
            ''tree'' 0 1 2 ''test'' ''recall'' (Some (1 / 2)) (small_world [[4 / 5], [1 / 5]] [1, 0])))
         3 ''precision'' = Inr (PFloat 1)
   \<and> stdout (snd (evaluate_model_with_threshold_params spec_evaluate_model_with_threshold
            ''tree'' 0 1 2 ''test'' ''recall'' (Some (1 / 2)) (small_world [[4 / 5], [1 / 5]] [1, 0])))
       = []
   \<and> evaluate_model_with_threshold_params spec_evaluate_model_with_threshold ''tree'' 0 1 2
            ''test'' ''recall'' (Some 0) (small_world [[4 / 5], [1 / 5]] [1, 0])
       = evaluate_model_with_threshold_params spec_evaluate_model_with_threshold ''tree'' 0 1 2
            ''test'' ''recall'' None (small_world [[4 / 5], [1 / 5]] [1, 0])
   \<and> getitem (snd (evaluate_model_with_threshold_params spec_evaluate_model_with_threshold
            ''tree'' 0 1 2 ''test'' ''recall'' None (small_world [[4 / 5], [1 / 5]] [1, 0])))
         3 ''precision'' = Inr (PFloat (1 / 2))
   \<and> stdout (snd (evaluate_model_with_threshold_params spec_evaluate_model_with_threshold
            ''tree'' 0 1 2 ''test'' ''recall'' None (small_world [[4 / 5], [1 / 5]] [1, 0])))
       = [BestThresholdLine ''recall'' 0 1]"
proof -
  let ?ev = "spec_evaluate_model_with_threshold"
  let ?W = "small_world [[4 / 5], [1 / 5]] [1, 0]"
  let ?at = "\<lambda>p r f a. (store ?W)(3 := Dict [''precision'' \<mapsto> PFloat p, ''recall'' \<mapsto> PFloat r,
                ''f1_score'' \<mapsto> PFloat f, ''accuracy'' \<mapsto> PFloat a])"
  let ?half = "\<lparr>store = ?at 1 1 1 1, stdout = []\<rparr>"
  let ?swept = "\<lparr>store = ?at 0 0 0 (1 / 2), stdout = [BestThresholdLine ''recall'' 0 1]\<rparr>"
  let ?zero = "\<lparr>store = ?at (1 / 2) 1 (2 / 3) (1 / 2), stdout = [BestThresholdLine ''recall'' 0 1]\<rparr>"
  have given: "(1 / 2 :: real) \<noteq> 0 \<and> ?ev 0 1 2 (1 / 2) ?W = (Inr 3, ?half)
      \<and> store ?half 3 = Dict [''precision'' \<mapsto> PFloat 1, ''recall'' \<mapsto> PFloat 1,
                ''f1_score'' \<mapsto> PFloat 1, ''accuracy'' \<mapsto> PFloat 1]"
    by (simp add: metric_defs sweep_defs fun_eq_iff)
  have "\<exists>mvs. find_best_threshold ?ev 0 1 2 ''recall'' default_thresholds ?W = (Inr (0, mvs), ?swept)"
    by (simp add: default_thresholds_eq metric_defs sweep_defs fun_eq_iff)
  then obtain mvs where
    search: "find_best_threshold ?ev 0 1 2 ''recall'' default_thresholds ?W = (Inr (0, mvs), ?swept)"
    ..
  have found: "?ev 0 1 2 0 ?swept = (Inr 3, ?zero)
      \<and> store ?zero 3 = Dict [''precision'' \<mapsto> PFloat (1 / 2), ''recall'' \<mapsto> PFloat 1,
                ''f1_score'' \<mapsto> PFloat (2 / 3), ''accuracy'' \<mapsto> PFloat (1 / 2)]"
    by (simp add: metric_defs sweep_defs fun_eq_iff)
  note inst = zero_threshold_runs_search [where ev = ?ev and name = "''tree''" and model = 0
      and X = 1 and y = 2 and split = "''test''" and metric = "''recall''" and w = ?W and d = 3]
  from inst [where t = "1 / 2" and ?w2.0 = ?half] given
  have r1: "evaluate_model_with_threshold_params ?ev ''tree'' 0 1 2 ''test'' ''recall''
              (Some (1 / 2)) ?W
            = (Inr 3, ?half\<lparr>store := (store ?half)(3 := Dict
                 ([''precision'' \<mapsto> PFloat 1, ''recall'' \<mapsto> PFloat 1,
                   ''f1_score'' \<mapsto> PFloat 1, ''accuracy'' \<mapsto> PFloat 1]
                  (''model_name'' \<mapsto> PStr ''tree'', ''split'' \<mapsto> PStr ''test'')))\<rparr>)"
    by blast
  from inst [where found = 0 and mvs = mvs and ?w1.0 = ?swept and ?w2.0 = ?zero] search found
  have r2: "evaluate_model_with_threshold_params ?ev ''tree'' 0 1 2 ''test'' ''recall'' None ?W
            = (Inr 3, ?zero\<lparr>store := (store ?zero)(3 := Dict
                 ([''precision'' \<mapsto> PFloat (1 / 2), ''recall'' \<mapsto> PFloat 1,
                   ''f1_score'' \<mapsto> PFloat (2 / 3), ''accuracy'' \<mapsto> PFloat (1 / 2)]
                  (''model_name'' \<mapsto> PStr ''tree'', ''split'' \<mapsto> PStr ''test'')))\<rparr>)"
    by blast
  from inst [where t = 0]
  have r3: "evaluate_model_with_threshold_params ?ev ''tree'' 0 1 2 ''test'' ''recall'' (Some 0) ?W
            = evaluate_model_with_threshold_params ?ev ''tree'' 0 1 2 ''test'' ''recall'' None ?W"
    by blast
  show ?thesis
    unfolding r3 r2 r1 by (simp add: getitem_def)
qed

lemma setitem_again:
  "setitem d k v w = (Inr u, w1) \<Longrightarrow> \<exists>w2. setitem d k' v' w1 = (Inr (), w2)"
  by (cases "store w d") (auto simp: setitem_def)

lemma threshold_loop_raises:
  "threshold_loop ev m X y metric ts s w = (Inl e, w') \<Longrightarrow>
     \<exists>ts1 t ts2 s1 w1. ts = ts1 @ t # ts2
        \<and> threshold_loop ev m X y metric ts1 s w = (Inr s1, w1)
        \<and> (ev m X y t w1 = (Inl e, w')
           \<or> (\<exists>d. ev m X y t w1 = (Inr d, w')
                 \<and> (getitem w' d metric = Inl e
                    \<or> (\<exists>z. getitem w' d metric = Inr (PStr z) \<and> e = TypeError))))"
proof (induction ts arbitrary: s w)
  case Nil
  then show ?case by simp
next
  case (Cons t ts)
  let ?here = "ev m X y t w = (Inl e, w')
           \<or> (\<exists>d. ev m X y t w = (Inr d, w')
                 \<and> (getitem w' d metric = Inl e
                    \<or> (\<exists>z. getitem w' d metric = Inr (PStr z) \<and> e = TypeError)))"
  show ?case
  proof (cases ?here)
    case True
    then show ?thesis
      by (intro exI[of _ "[]"] exI[of _ t] exI[of _ ts] exI[of _ s] exI[of _ w]) simp
  next
    case False
    obtain res w1 where ev: "ev m X y t w = (res, w1)" by (cases "ev m X y t w")
    from False ev Cons.prems obtain d where d: "res = Inr d" by (cases res) auto
    from False ev d Cons.prems obtain x where x: "getitem w1 d metric = Inr x"
      by (cases "getitem w1 d metric") auto
    from False ev d x Cons.prems have nostr: "\<forall>z. x \<noteq> PStr z" by auto
    let ?s1 = "s\<lparr>metric_values := metric_values s @ [(t, x)]\<rparr>"
    from ev d x nostr have "\<exists>s2. threshold_loop ev m X y metric [t] s w = (Inr s2, w1)"
      by (cases x) (simp_all add: Let_def)
    then obtain s2 where one: "threshold_loop ev m X y metric [t] s w = (Inr s2, w1)" ..
    have "threshold_loop ev m X y metric ([t] @ ts) s w = threshold_loop ev m X y metric ts s2 w1"
      using one by (simp only: threshold_loop_append) simp
    then have rest: "threshold_loop ev m X y metric (t # ts) s w
                       = threshold_loop ev m X y metric ts s2 w1"
      by simp
    from rest Cons.prems have "threshold_loop ev m X y metric ts s2 w1 = (Inl e, w')" by simp
    from Cons.IH[OF this] obtain ts1 t' ts2 s1 wa where
      split: "ts = ts1 @ t' # ts2"
      and pre: "threshold_loop ev m X y metric ts1 s2 w1 = (Inr s1, wa)"
      and site: "ev m X y t' wa = (Inl e, w')
           \<or> (\<exists>d. ev m X y t' wa = (Inr d, w')
                 \<and> (getitem w' d metric = Inl e
                    \<or> (\<exists>z. getitem w' d metric = Inr (PStr z) \<and> e = TypeError)))"
      by blast
    have "threshold_loop ev m X y metric ([t] @ ts1) s w = (Inr s1, wa)"
      using one pre by (simp only: threshold_loop_append) simp
    then have "threshold_loop ev m X y metric (t # ts1) s w = (Inr s1, wa)" by simp
    with split site show ?thesis
      by (intro exI[of _ "t # ts1"] exI[of _ t'] exI[of _ ts2] exI[of _ s1] exI[of _ wa]) simp
  qed
qed

lemma evaluate_model_metrics_with_library:
  "evaluate_model_metrics labels y_pred
     = evaluate_model_metrics_with precision_score recall_score f1_score accuracy_score
         labels y_pred"
  by (simp add: evaluate_model_metrics_def evaluate_model_metrics_with_def)

text \<open>
  C6. None of the three functions of the notebook handles an exception: whatever
  operation inside them raises, the call ends with that very exception, in the world as
  the raising operation left it. For \<open>find_best_threshold\<close> the operations are the
  evaluation at a threshold, the subscript \<^verbatim>\<open>metrics[metric]\<close> and the comparison with
  the best value; after a raise no later threshold is tried and nothing is printed. For
  \<open>evaluate_model_with_threshold_params\<close> they are the search, the evaluation at the
  threshold in effect and the labelling of the result, on both sides of the test of the
  threshold. For \<open>evaluate_model_metrics\<close> they are the four library calls, whatever
  the library does: the first that raises ends the call. (The second labelling
  assignment cannot raise once the first has succeeded.)
\<close>

theorem exceptions_propagate:
  "(threshold_loop ev model X y metric ts1
       \<lparr>best_threshold = 0.5, best_metric_value = 0, metric_values = []\<rparr> w = (Inr s1, w1)
     \<and> ev model X y t w1 = (Inl e, w2) \<longrightarrow>
    find_best_threshold ev model X y metric (ts1 @ t # ts2) w = (Inl e, w2))
   \<and> (threshold_loop ev model X y metric ts1
       \<lparr>best_threshold = 0.5, best_metric_value = 0, metric_values = []\<rparr> w = (Inr s1, w1)
     \<and> ev model X y t w1 = (Inr d, w2) \<and> getitem w2 d metric = Inl e \<longrightarrow>
    find_best_threshold ev model X y metric (ts1 @ t # ts2) w = (Inl e, w2))
   \<and> (threshold_loop ev model X y metric ts1
       \<lparr>best_threshold = 0.5, best_metric_value = 0, metric_values = []\<rparr> w = (Inr s1, w1)
     \<and> ev model X y t w1 = (Inr d, w2) \<and> getitem w2 d metric = Inr (PStr z) \<longrightarrow>
    find_best_threshold ev model X y metric (ts1 @ t # ts2) w = (Inl TypeError, w2))
   \<and> (py_not threshold
     \<and> find_best_threshold ev model X y metric default_thresholds w = (Inl e, w1) \<longrightarrow>
    evaluate_model_with_threshold_params ev name model X y split metric threshold w = (Inl e, w1))
   \<and> (py_not threshold
     \<and> find_best_threshold ev model X y metric default_thresholds w = (Inr (found, mvs), w1)
     \<and> ev model X y found w1 = (Inl e, w2) \<longrightarrow>
    evaluate_model_with_threshold_params ev name model X y split metric threshold w = (Inl e, w2))
   \<and> (py_not threshold
     \<and> find_best_threshold ev model X y metric default_thresholds w = (Inr (found, mvs), w1)
     \<and> ev model X y found w1 = (Inr d, w2)
     \<and> setitem d ''model_name'' (PStr name) w2 = (Inl e, w3) \<longrightarrow>
    evaluate_model_with_threshold_params ev name model X y split metric threshold w = (Inl e, w3))
   \<and> (t \<noteq> 0 \<and> ev model X y t w = (Inl e, w2) \<longrightarrow>
    evaluate_model_with_threshold_params ev name model X y split metric (Some t) w = (Inl e, w2))
   \<and> (t \<noteq> 0 \<and> ev model X y t w = (Inr d, w2)
     \<and> setitem d ''model_name'' (PStr name) w2 = (Inl e, w3) \<longrightarrow>
    evaluate_model_with_threshold_params ev name model X y split metric (Some t) w = (Inl e, w3))
   \<and> evaluate_model_metrics labels y_pred
       = evaluate_model_metrics_with precision_score recall_score f1_score accuracy_score
           labels y_pred
   \<and> (precision labels y_pred = Inl e \<longrightarrow>
    evaluate_model_metrics_with precision recall f1 accuracy labels y_pred = Inl e)
   \<and> (precision labels y_pred = Inr p \<and> recall labels y_pred = Inl e \<longrightarrow>
    evaluate_model_metrics_with precision recall f1 accuracy labels y_pred = Inl e)
   \<and> (precision labels y_pred = Inr p \<and> recall labels y_pred = Inr r
     \<and> f1 labels y_pred = Inl e \<longrightarrow>
    evaluate_model_metrics_with precision recall f1 accuracy labels y_pred = Inl e)
   \<and> (precision labels y_pred = Inr p \<and> recall labels y_pred = Inr r
     \<and> f1 labels y_pred = Inr f \<and> accuracy labels y_pred = Inl e \<longrightarrow>
    evaluate_model_metrics_with precision recall f1 accuracy labels y_pred = Inl e)"
proof -
  have loop: "find_best_threshold ev model X y metric (ts1 @ t # ts2) w = (Inl e', w2)"
    if "threshold_loop ev model X y metric ts1
          \<lparr>best_threshold = 0.5, best_metric_value = 0, metric_values = []\<rparr> w = (Inr s1, w1)"
      and "threshold_loop ev model X y metric [t] s1 w1 = (Inl e', w2)" for e'
  proof -
    have "threshold_loop ev model X y metric (ts1 @ [t] @ ts2)
            \<lparr>best_threshold = 0.5, best_metric_value = 0, metric_values = []\<rparr> w = (Inl e', w2)"
      using that by (simp only: threshold_loop_append) simp
    then show ?thesis by (simp add: find_best_threshold_def)
  qed
  have tail_given: "evaluate_model_with_threshold_params ev name model X y split metric (Some t) w
           = evaluate_and_label ev name model X y split t w" if "t \<noteq> 0"
    using that by (simp add: evaluate_model_with_threshold_params_def py_not_def)
  have tail_found: "evaluate_model_with_threshold_params ev name model X y split metric threshold w
           = evaluate_and_label ev name model X y split found w1"
    if "py_not threshold"
      and "find_best_threshold ev model X y metric default_thresholds w = (Inr (found, mvs), w1)"
    using that by (simp add: evaluate_model_with_threshold_params_def)
  show ?thesis
  proof (intro conjI impI; (elim conjE)?)
    assume "threshold_loop ev model X y metric ts1
          \<lparr>best_threshold = 0.5, best_metric_value = 0, metric_values = []\<rparr> w = (Inr s1, w1)"
      and "ev model X y t w1 = (Inl e, w2)"
    then show "find_best_threshold ev model X y metric (ts1 @ t # ts2) w = (Inl e, w2)"
      by (intro loop) simp_all
  next
    assume "threshold_loop ev model X y metric ts1
          \<lparr>best_threshold = 0.5, best_metric_value = 0, metric_values = []\<rparr> w = (Inr s1, w1)"
      and "ev model X y t w1 = (Inr d, w2)" and "getitem w2 d metric = Inl e"
    then show "find_best_threshold ev model X y metric (ts1 @ t # ts2) w = (Inl e, w2)"
      by (intro loop) simp_all
  next
    assume "threshold_loop ev model X y metric ts1
          \<lparr>best_threshold = 0.5, best_metric_value = 0, metric_values = []\<rparr> w = (Inr s1, w1)"
      and "ev model X y t w1 = (Inr d, w2)" and "getitem w2 d metric = Inr (PStr z)"
    then show "find_best_threshold ev model X y metric (ts1 @ t # ts2) w = (Inl TypeError, w2)"
      by (intro loop) simp_all
  next
    assume "py_not threshold"
      and "find_best_threshold ev model X y metric default_thresholds w = (Inl e, w1)"
    then show "evaluate_model_with_threshold_params ev name model X y split metric threshold w
                 = (Inl e, w1)"
      by (simp add: evaluate_model_with_threshold_params_def)
  next
    assume "py_not threshold"
      and "find_best_threshold ev model X y metric default_thresholds w = (Inr (found, mvs), w1)"
      and "ev model X y found w1 = (Inl e, w2)"
    then show "evaluate_model_with_threshold_params ev name model X y split metric threshold w
                 = (Inl e, w2)"
      by (simp add: tail_found evaluate_and_label_def)
  next
    assume "py_not threshold"
      and "find_best_threshold ev model X y metric default_thresholds w = (Inr (found, mvs), w1)"
      and "ev model X y found w1 = (Inr d, w2)"
      and "setitem d ''model_name'' (PStr name) w2 = (Inl e, w3)"
    then show "evaluate_model_with_threshold_params ev name model X y split metric threshold w
                 = (Inl e, w3)"
      by (simp add: tail_found evaluate_and_label_def)
  next
    assume "t \<noteq> 0" and "ev model X y t w = (Inl e, w2)"
    then show "evaluate_model_with_threshold_params ev name model X y split metric (Some t) w
                 = (Inl e, w2)"
      by (simp add: tail_given evaluate_and_label_def)
  next
    assume "t \<noteq> 0" and "ev model X y t w = (Inr d, w2)"
      and "setitem d ''model_name'' (PStr name) w2 = (Inl e, w3)"
    then show "evaluate_model_with_threshold_params ev name model X y split metric (Some t) w
                 = (Inl e, w3)"
      by (simp add: tail_given evaluate_and_label_def)
  next
    show "evaluate_model_metrics labels y_pred
       = evaluate_model_metrics_with precision_score recall_score f1_score accuracy_score
           labels y_pred"
      by (rule evaluate_model_metrics_with_library)
  qed (simp_all add: evaluate_model_metrics_with_def)
qed

theorem exceptions_propagate_witness:
  "find_best_threshold (failing_above (1 / 2)) 0 1 2 ''recall'' ([1 / 10] @ 3 / 5 # [7 / 10])
       (small_world [[4 / 5], [1 / 5]] [1, 0])
     = (Inl (Raised ''predict_proba''),
        snd (spec_evaluate_model_with_threshold 0 1 2 (1 / 10) (small_world [[4 / 5], [1 / 5]] [1, 0])))
   \<and> find_best_threshold spec_evaluate_model_with_threshold 0 1 2 ''auc'' ([] @ 1 / 10 # [3 / 10])
       (small_world [[4 / 5], [1 / 5]] [1, 0])
     = (Inl (KeyError ''auc''),
        snd (spec_evaluate_model_with_threshold 0 1 2 (1 / 10) (small_world [[4 / 5], [1 / 5]] [1, 0])))
   \<and> find_best_threshold string_valued 0 1 2 ''recall'' ([] @ 1 / 10 # [3 / 10])
       (small_world [[4 / 5], [1 / 5]] [1, 0])
     = (Inl TypeError, snd (string_valued 0 1 2 (1 / 10) (small_world [[4 / 5], [1 / 5]] [1, 0])))
   \<and> py_not (Some 0)
   \<and> fst (evaluate_model_with_threshold_params (failing_above (1 / 2)) ''tree'' 0 1 2 ''test''
            ''recall'' (Some 0) (small_world [[4 / 5], [1 / 5]] [1, 0]))
       = Inl (Raised ''predict_proba'')
   \<and> fst (evaluate_model_with_threshold_params failing_once_printed ''tree'' 0 1 2 ''test''
            ''recall'' (Some 0) (small_world [[4 / 5], [1 / 5]] [1, 0]))
       = Inl (Raised ''predict_proba'')
   \<and> fst (evaluate_model_with_threshold_params matrix_once_printed ''tree'' 0 1 2 ''test''
            ''recall'' (Some 0) (small_world [[4 / 5], [1 / 5]] [1, 0]))
       = Inl TypeError
   \<and> (3 / 5 :: real) \<noteq> 0
   \<and> evaluate_model_with_threshold_params (failing_above (1 / 2)) ''tree'' 0 1 2 ''test''
            ''recall'' (Some (3 / 5)) (small_world [[4 / 5], [1 / 5]] [1, 0])
       = (Inl (Raised ''predict_proba''), small_world [[4 / 5], [1 / 5]] [1, 0])
   \<and> evaluate_model_with_threshold_params returns_its_input ''tree'' 0 1 2 ''test''
            ''recall'' (Some (3 / 5)) (small_world [[4 / 5], [1 / 5]] [1, 0])
       = (Inl TypeError, small_world [[4 / 5], [1 / 5]] [1, 0])
   \<and> evaluate_model_metrics [1, 0] [1] = Inl ValueError
   \<and> evaluate_model_metrics_with (\<lambda>y p. Inl (Raised ''precision_score'')) (\<lambda>y p. Inr 1)
        (\<lambda>y p. Inr 1) (\<lambda>y p. Inr PNaN) [1, 0] [1, 1] = Inl (Raised ''precision_score'')
   \<and> evaluate_model_metrics_with (\<lambda>y p. Inr 1) (\<lambda>y p. Inl (Raised ''recall_score''))
        (\<lambda>y p. Inr 1) (\<lambda>y p. Inr PNaN) [1, 0] [1, 1] = Inl (Raised ''recall_score'')
   \<and> evaluate_model_metrics_with (\<lambda>y p. Inr 1) (\<lambda>y p. Inr 1)
        (\<lambda>y p. Inl (Raised ''f1_score'')) (\<lambda>y p. Inr PNaN) [1, 0] [1, 1]
       = Inl (Raised ''f1_score'')
   \<and> evaluate_model_metrics_with (\<lambda>y p. Inr 1) (\<lambda>y p. Inr 1) (\<lambda>y p. Inr 1)
        (\<lambda>y p. Inl (Raised ''accuracy_score'')) [1, 0] [1, 1] = Inl (Raised ''accuracy_score'')"
proof -
  let ?W = "small_world [[4 / 5], [1 / 5]] [1, 0]"
  let ?boom = "Raised ''predict_proba''"
  let ?S0 = "\<lparr>best_threshold = 0.5, best_metric_value = 0, metric_values = []\<rparr>"
  let ?w1 = "snd (spec_evaluate_model_with_threshold 0 1 2 (1 / 10) ?W)"
  let ?ws = "snd (string_valued 0 1 2 (1 / 10) ?W)"
  let ?ok = "\<lambda>(y :: int list) (p :: int list). Inr 1 :: error + real"
  let ?nan = "\<lambda>(y :: int list) (p :: int list). Inr PNaN :: error + pyval"
  have f1: "threshold_loop (failing_above (1 / 2)) 0 1 2 ''recall'' [1 / 10] ?S0 ?W
       = (Inr \<lparr>best_threshold = 1 / 10, best_metric_value = 1,
               metric_values = [(1 / 10, PFloat 1)]\<rparr>, ?w1)
     \<and> failing_above (1 / 2) 0 1 2 (3 / 5) ?w1 = (Inl ?boom, ?w1)"
    by (simp add: failing_above_def metric_defs sweep_defs)
  have f2: "threshold_loop spec_evaluate_model_with_threshold 0 1 2 ''auc'' [] ?S0 ?W = (Inr ?S0, ?W)
     \<and> spec_evaluate_model_with_threshold 0 1 2 (1 / 10) ?W = (Inr 3, ?w1)
     \<and> getitem ?w1 3 ''auc'' = Inl (KeyError ''auc'')"
    by (simp add: metric_defs sweep_defs)
  have f3: "threshold_loop string_valued 0 1 2 ''recall'' [] ?S0 ?W = (Inr ?S0, ?W)
     \<and> string_valued 0 1 2 (1 / 10) ?W = (Inr 3, ?ws)
     \<and> getitem ?ws 3 ''recall'' = Inr (PStr ''n/a'')"
    by (simp add: string_valued_def sweep_defs)
  have z: "py_not (Some 0)" by (simp add: py_not_def)
  have "\<exists>w1. find_best_threshold (failing_above (1 / 2)) 0 1 2 ''recall'' default_thresholds ?W
          = (Inl ?boom, w1)"
    by (simp add: default_thresholds_eq failing_above_def metric_defs sweep_defs)
  then obtain wa where
    "find_best_threshold (failing_above (1 / 2)) 0 1 2 ''recall'' default_thresholds ?W
          = (Inl ?boom, wa)" ..
  with z have p1: "py_not (Some 0)
     \<and> find_best_threshold (failing_above (1 / 2)) 0 1 2 ''recall'' default_thresholds ?W
          = (Inl ?boom, wa)" ..
  have "\<exists>mvs w1. find_best_threshold failing_once_printed 0 1 2 ''recall'' default_thresholds ?W
          = (Inr (0, mvs), w1) \<and> failing_once_printed 0 1 2 0 w1 = (Inl ?boom, w1)"
    by (simp add: default_thresholds_eq failing_once_printed_def metric_defs sweep_defs)
  then obtain mvs wb where
    "find_best_threshold failing_once_printed 0 1 2 ''recall'' default_thresholds ?W
          = (Inr (0, mvs), wb) \<and> failing_once_printed 0 1 2 0 wb = (Inl ?boom, wb)"
    by blast
  with z have p2: "py_not (Some 0)
     \<and> find_best_threshold failing_once_printed 0 1 2 ''recall'' default_thresholds ?W
          = (Inr (0, mvs), wb) \<and> failing_once_printed 0 1 2 0 wb = (Inl ?boom, wb)" ..
  have "\<exists>mvs w1. find_best_threshold matrix_once_printed 0 1 2 ''recall'' default_thresholds ?W
          = (Inr (0, mvs), w1) \<and> matrix_once_printed 0 1 2 0 w1 = (Inr 1, w1)
          \<and> setitem 1 ''model_name'' (PStr ''tree'') w1 = (Inl TypeError, w1)"
    by (simp add: default_thresholds_eq matrix_once_printed_def metric_defs sweep_defs)
  then obtain mvs' wc where
    "find_best_threshold matrix_once_printed 0 1 2 ''recall'' default_thresholds ?W
          = (Inr (0, mvs'), wc) \<and> matrix_once_printed 0 1 2 0 wc = (Inr 1, wc)
          \<and> setitem 1 ''model_name'' (PStr ''tree'') wc = (Inl TypeError, wc)"
    by blast
  with z have p3: "py_not (Some 0)
     \<and> find_best_threshold matrix_once_printed 0 1 2 ''recall'' default_thresholds ?W
          = (Inr (0, mvs'), wc) \<and> matrix_once_printed 0 1 2 0 wc = (Inr 1, wc)
          \<and> setitem 1 ''model_name'' (PStr ''tree'') wc = (Inl TypeError, wc)" ..
  have p4: "(3 / 5 :: real) \<noteq> 0 \<and> failing_above (1 / 2) 0 1 2 (3 / 5) ?W = (Inl ?boom, ?W)"
    by (simp add: failing_above_def)
  have p5: "(3 / 5 :: real) \<noteq> 0 \<and> returns_its_input 0 1 2 (3 / 5) ?W = (Inr 1, ?W)
     \<and> setitem 1 ''model_name'' (PStr ''tree'') ?W = (Inl TypeError, ?W)"
    by (simp add: returns_its_input_def setitem_def small_world_def)
  have m0: "precision_score [1, 0] [1] = Inl ValueError"
    by (simp add: metric_defs)
  have m1: "(\<lambda>(y :: int list) (p :: int list). Inl (Raised ''precision_score'') :: error + real)
              [1, 0] [1, 1] = Inl (Raised ''precision_score'')"
    by simp
  have m2: "?ok [1, 0] [1, 1] = Inr 1
     \<and> (\<lambda>(y :: int list) (p :: int list). Inl (Raised ''recall_score'') :: error + real)
              [1, 0] [1, 1] = Inl (Raised ''recall_score'')"
    by simp
  have m3: "?ok [1, 0] [1, 1] = Inr 1 \<and> ?ok [1, 0] [1, 1] = Inr 1
     \<and> (\<lambda>(y :: int list) (p :: int list). Inl (Raised ''f1_score'') :: error + real)
              [1, 0] [1, 1] = Inl (Raised ''f1_score'')"
    by simp
  have m4: "?ok [1, 0] [1, 1] = Inr 1 \<and> ?ok [1, 0] [1, 1] = Inr 1 \<and> ?ok [1, 0] [1, 1] = Inr 1
     \<and> (\<lambda>(y :: int list) (p :: int list). Inl (Raised ''accuracy_score'') :: error + pyval)
              [1, 0] [1, 1] = Inl (Raised ''accuracy_score'')"
    by simp
  have c1: "find_best_threshold (failing_above (1 / 2)) 0 1 2 ''recall'' ([1 / 10] @ 3 / 5 # [7 / 10]) ?W
              = (Inl ?boom, ?w1)"
    by (rule exceptions_propagate [where ev = "failing_above (1 / 2)" and ?ts1.0 = "[1 / 10]"
          and ?w1.0 = ?w1, THEN conjunct1, rule_format, OF f1])
  have c2: "find_best_threshold spec_evaluate_model_with_threshold 0 1 2 ''auc''
              ([] @ 1 / 10 # [3 / 10]) ?W = (Inl (KeyError ''auc''), ?w1)"
    by (rule exceptions_propagate [where ev = spec_evaluate_model_with_threshold and ?ts1.0 = "[]"
          and ?w1.0 = ?W and d = 3, THEN conjunct2, THEN conjunct1, rule_format, OF f2])
  have c3: "find_best_threshold string_valued 0 1 2 ''recall'' ([] @ 1 / 10 # [3 / 10]) ?W
              = (Inl TypeError, ?ws)"
    by (rule exceptions_propagate [where ev = string_valued and ?ts1.0 = "[]"
          and ?w1.0 = ?W and d = 3, THEN conjunct2, THEN conjunct2, THEN conjunct1, rule_format, OF f3])
  have c4: "evaluate_model_with_threshold_params (failing_above (1 / 2)) ''tree'' 0 1 2 ''test''
            ''recall'' (Some 0) ?W = (Inl ?boom, wa)"
    by (rule exceptions_propagate [where ev = "failing_above (1 / 2)", THEN conjunct2, THEN conjunct2, THEN conjunct2, THEN conjunct1, rule_format, OF p1])
  have c5: "evaluate_model_with_threshold_params failing_once_printed ''tree'' 0 1 2 ''test''
            ''recall'' (Some 0) ?W = (Inl ?boom, wb)"
    by (rule exceptions_propagate [where ev = failing_once_printed, THEN conjunct2, THEN conjunct2, THEN conjunct2, THEN conjunct2, THEN conjunct1, rule_format, OF p2])
  have c6: "evaluate_model_with_threshold_params matrix_once_printed ''tree'' 0 1 2 ''test''
            ''recall'' (Some 0) ?W = (Inl TypeError, wc)"
    by (rule exceptions_propagate [where ev = matrix_once_printed, THEN conjunct2, THEN conjunct2, THEN conjunct2, THEN conjunct2, THEN conjunct2, THEN conjunct1, rule_format, OF p3])
  have c7: "evaluate_model_with_threshold_params (failing_above (1 / 2)) ''tree'' 0 1 2 ''test''
            ''recall'' (Some (3 / 5)) ?W = (Inl ?boom, ?W)"
    by (rule exceptions_propagate [where ev = "failing_above (1 / 2)", THEN conjunct2, THEN conjunct2, THEN conjunct2, THEN conjunct2, THEN conjunct2, THEN conjunct2, THEN conjunct1, rule_format, OF p4])
  have c8: "evaluate_model_with_threshold_params returns_its_input ''tree'' 0 1 2 ''test''
            ''recall'' (Some (3 / 5)) ?W = (Inl TypeError, ?W)"
    by (rule exceptions_propagate [where ev = returns_its_input, THEN conjunct2, THEN conjunct2, THEN conjunct2, THEN conjunct2, THEN conjunct2, THEN conjunct2, THEN conjunct2, THEN conjunct1, rule_format, OF p5])
  have c9: "evaluate_model_metrics [1, 0] [1] = Inl ValueError"
    using exceptions_propagate [where labels = "[1, 0]" and y_pred = "[1]"
        and precision = precision_score and recall = recall_score and ?f1.0 = f1_score
        and accuracy = accuracy_score and e = ValueError, THEN conjunct2, THEN conjunct2, THEN conjunct2, THEN conjunct2, THEN conjunct2, THEN conjunct2, THEN conjunct2, THEN conjunct2, THEN conjunct1]
      exceptions_propagate [where labels = "[1, 0]" and y_pred = "[1]"
        and precision = precision_score and recall = recall_score and ?f1.0 = f1_score
        and accuracy = accuracy_score and e = ValueError, THEN conjunct2, THEN conjunct2, THEN conjunct2, THEN conjunct2, THEN conjunct2, THEN conjunct2, THEN conjunct2, THEN conjunct2, THEN conjunct2, THEN conjunct1, rule_format, OF m0]
    by simp
  have c10: "evaluate_model_metrics_with (\<lambda>y p. Inl (Raised ''precision_score'')) ?ok ?ok ?nan
               [1, 0] [1, 1] = Inl (Raised ''precision_score'')"
    by (rule exceptions_propagate [THEN conjunct2, THEN conjunct2, THEN conjunct2, THEN conjunct2, THEN conjunct2, THEN conjunct2, THEN conjunct2, THEN conjunct2, THEN conjunct2, THEN conjunct1, rule_format, OF m1])
  have c11: "evaluate_model_metrics_with ?ok (\<lambda>y p. Inl (Raised ''recall_score'')) ?ok ?nan
               [1, 0] [1, 1] = Inl (Raised ''recall_score'')"
    by (rule exceptions_propagate [THEN conjunct2, THEN conjunct2, THEN conjunct2, THEN conjunct2, THEN conjunct2, THEN conjunct2, THEN conjunct2, THEN conjunct2, THEN conjunct2, THEN conjunct2, THEN conjunct1, rule_format, OF m2])
  have c12: "evaluate_model_metrics_with ?ok ?ok (\<lambda>y p. Inl (Raised ''f1_score'')) ?nan
               [1, 0] [1, 1] = Inl (Raised ''f1_score'')"
    by (rule exceptions_propagate [THEN conjunct2, THEN conjunct2, THEN conjunct2, THEN conjunct2, THEN conjunct2, THEN conjunct2, THEN conjunct2, THEN conjunct2, THEN conjunct2, THEN conjunct2, THEN conjunct2, THEN conjunct1, rule_format, OF m3])
  have c13: "evaluate_model_metrics_with ?ok ?ok ?ok (\<lambda>y p. Inl (Raised ''accuracy_score''))
               [1, 0] [1, 1] = Inl (Raised ''accuracy_score'')"
    by (rule exceptions_propagate [THEN conjunct2, THEN conjunct2, THEN conjunct2, THEN conjunct2, THEN conjunct2, THEN conjunct2, THEN conjunct2, THEN conjunct2, THEN conjunct2, THEN conjunct2, THEN conjunct2, THEN conjunct2, rule_format, OF m4])
  from c1 c2 c3 z c4 c5 c6 c7 c8 c9 c10 c11 c12 c13 p4 show ?thesis by simp
qed






text \<open>
  The labelling does write into whatever dictionary the evaluation returns: with a
  helper that hands back one of its arguments, that argument is changed.
\<close>

lemma labelling_writes_through_alias:
  "store (snd (evaluate_model_with_threshold_params returns_its_input ''tree'' 0 1 2 ''test''
                 ''recall'' (Some (1 / 2))
                 \<lparr>store = (\<lambda>r. Dict Map.empty) :: ref \<Rightarrow> unit obj, stdout = []\<rparr>)) 1
     = Dict [''model_name'' \<mapsto> PStr ''tree'', ''split'' \<mapsto> PStr ''test'']"
  by (simp add: evaluate_model_with_threshold_params_def py_not_def evaluate_and_label_def
      returns_its_input_def setitem_def)

section \<open>Claim about the train step\<close>

lemma binary_metrics_keys:
  assumes "length y = length y_pred" "set y \<subseteq> {0, 1}" "set y_pred \<subseteq> {0, 1}"
  shows "\<exists>m. evaluate_model_metrics y y_pred = Inr m
           \<and> dom m = {''precision'', ''recall'', ''f1_score'', ''accuracy''}"
proof -
  note chk = binary_labels_pass[OF assms]
  have "\<exists>a. accuracy_score y y_pred = Inr a"
    using assms(1) by (simp add: accuracy_score_def check_consistent_length_def)
  then obtain a where "accuracy_score y y_pred = Inr a" ..
  then show ?thesis
    by (auto simp: evaluate_model_metrics_def precision_score_def recall_score_def
        f1_score_def chk)
qed

text \<open>
  C5. When the classifier, the two feature matrices and the two label vectors are
  objects of the library, fitting and predicting succeed, and predictions and labels
  are vectors over \<open>{0, 1}\<close> of one length, \<open>train_model\<close> fits the classifier on the
  training matrix and labels only, leaves it fitted in the store, and returns the
  predictions for the training set and for the validation set together with a metric
  summary of each: the precision, recall, F1 and accuracy of the labels of that set
  against the predictions for it.
\<close>

theorem train_model_fits_and_summarises:
  assumes "store w clf = Opaque c" "store w X_train = Opaque xt" "store w y_train = Opaque yt"
    and "store w X_val = Opaque xv" "store w y_val = Opaque yv"
    and "fit lib c xt yt = Inr fitted"
    and "predict lib fitted xt = Inr train_pred" "predict lib fitted xv = Inr val_pred"
    and "length (labels_of lib yt) = length train_pred" "length (labels_of lib yv) = length val_pred"
    and "set (labels_of lib yt) \<subseteq> {0, 1}" "set train_pred \<subseteq> {0, 1}"
    and "set (labels_of lib yv) \<subseteq> {0, 1}" "set val_pred \<subseteq> {0, 1}"
  shows "\<exists>train_metrics val_metrics.
           train_model lib clf X_train y_train X_val y_val w
             = (Inr ((train_pred, val_pred), train_metrics, val_metrics),
                w\<lparr>store := (store w)(clf := Opaque fitted)\<rparr>)
         \<and> evaluate_model_metrics (labels_of lib yt) train_pred = Inr train_metrics
         \<and> evaluate_model_metrics (labels_of lib yv) val_pred = Inr val_metrics
         \<and> dom train_metrics = {''precision'', ''recall'', ''f1_score'', ''accuracy''}
         \<and> dom val_metrics = {''precision'', ''recall'', ''f1_score'', ''accuracy''}"
proof -
  from binary_metrics_keys[OF assms(9,11,12)] obtain tm where
    tm: "evaluate_model_metrics (labels_of lib yt) train_pred = Inr tm"
        "dom tm = {''precision'', ''recall'', ''f1_score'', ''accuracy''}"
    by blast
  from binary_metrics_keys[OF assms(10,13,14)] obtain vm where
    vm: "evaluate_model_metrics (labels_of lib yv) val_pred = Inr vm"
        "dom vm = {''precision'', ''recall'', ''f1_score'', ''accuracy''}"
    by blast
  have "train_model lib clf X_train y_train X_val y_val w
          = (Inr ((train_pred, val_pred), tm, vm), w\<lparr>store := (store w)(clf := Opaque fitted)\<rparr>)"
    using assms(1-8) tm(1) vm(1) by (simp add: train_model_def)
  with tm vm show ?thesis by blast
qed

theorem train_model_fits_and_summarises_witness:
  "fst (train_model toy_sklearn 0 1 2 3 4
          (split_world [[4 / 5], [3 / 5], [1 / 5]] [1, 0, 0] [[7 / 10], [3 / 10]] [0, 0]))
     = Inr (([1, 1, 0], [1, 0]),
            [''precision'' \<mapsto> PFloat (1 / 2), ''recall'' \<mapsto> PFloat 1,
             ''f1_score'' \<mapsto> PFloat (2 / 3), ''accuracy'' \<mapsto> PFloat (2 / 3)],
            [''precision'' \<mapsto> PFloat 0, ''recall'' \<mapsto> PFloat 0,
             ''f1_score'' \<mapsto> PFloat 0, ''accuracy'' \<mapsto> PFloat (1 / 2)])
   \<and> store (snd (train_model toy_sklearn 0 1 2 3 4
          (split_world [[4 / 5], [3 / 5], [1 / 5]] [1, 0, 0] [[7 / 10], [3 / 10]] [0, 0]))) 0
     = Opaque (Classifier first_feature)"
proof -
  let ?w = "split_world [[4 / 5], [3 / 5], [1 / 5]] [1, 0, 0] [[7 / 10], [3 / 10]] [0, 0]"
  have objs: "store ?w 0 = Opaque Estimator" "store ?w 1 = Opaque (Features [[4 / 5], [3 / 5], [1 / 5]])"
    "store ?w 2 = Opaque (Labels [1, 0, 0])" "store ?w 3 = Opaque (Features [[7 / 10], [3 / 10]])"
    "store ?w 4 = Opaque (Labels [0, 0])"
    by (simp_all add: split_world_def)
  have fitted: "fit toy_sklearn Estimator (Features [[4 / 5], [3 / 5], [1 / 5]]) (Labels [1, 0, 0])
                  = Inr (Classifier first_feature)"
    by (simp add: toy_sklearn_def)
  have preds: "predict toy_sklearn (Classifier first_feature) (Features [[4 / 5], [3 / 5], [1 / 5]])
                  = Inr [1, 1, 0]"
    "predict toy_sklearn (Classifier first_feature) (Features [[7 / 10], [3 / 10]]) = Inr [1, 0]"
    by (simp_all add: toy_sklearn_def first_feature_def)
  have shape: "length (labels_of toy_sklearn (Labels [1, 0, 0])) = length [1, 1, 0 :: int]"
    "length (labels_of toy_sklearn (Labels [0, 0])) = length [1, 0 :: int]"
    "set (labels_of toy_sklearn (Labels [1, 0, 0])) \<subseteq> {0, 1}" "set [1, 1, 0] \<subseteq> {0, 1 :: int}"
    "set (labels_of toy_sklearn (Labels [0, 0])) \<subseteq> {0, 1}" "set [1, 0] \<subseteq> {0, 1 :: int}"
    by (simp_all add: toy_sklearn_def)
  from train_model_fits_and_summarises[OF objs fitted preds shape]
  show ?thesis
    by (auto simp: toy_sklearn_def metric_defs)
qed

end
